theory Spec2Isabelle
  imports Complex_Main "HOL-Library.Multiset"
begin

section \<open>Numbers, time and exceptions\<close>

text \<open>
  Python \<open>float\<close> values are idealised as exact reals, Python \<open>int\<close> as \<open>int\<close>.
  A \<open>datetime\<close> is the number of microseconds since the epoch (UTC), so that
  \<open>(b - a).total_seconds()\<close> is the difference divided by \<open>10^6\<close>.
\<close>

type_synonym datetime = int

definition total_seconds :: "int \<Rightarrow> real" where
  "total_seconds d = of_int d / 1000000"

text \<open>\<open>round(x, n)\<close> of Python and \<open>$round\<close> of the document store: nearest, ties to even.\<close>

definition round_half_even :: "real \<Rightarrow> int" where
  "round_half_even x =
     (let f = \<lfloor>x\<rfloor>; d = x - of_int f
      in if d < 1 / 2 then f else if 1 / 2 < d then f + 1
         else if even f then f else f + 1)"

definition py_round :: "real \<Rightarrow> nat \<Rightarrow> real" where
  "py_round x n = of_int (round_half_even (x * 10 ^ n)) / 10 ^ n"

text \<open>\<open>int(x)\<close> of a float truncates towards zero.\<close>

definition py_int :: "real \<Rightarrow> int" where
  "py_int x = (if 0 \<le> x then \<lfloor>x\<rfloor> else \<lceil>x\<rceil>)"

text \<open>
  Exceptions are values. The detail of an \<open>HTTPException\<close> is either a fixed text or an
  f-string \<open>f"<prefix>{str(e)}"\<close> built from a caught exception, kept structurally.
\<close>

datatype exn =
    HTTPException nat detail
  | KeyError string
  | AttributeError string
  | DockerError string
and detail =
    Detail string
  | DetailStr string exn

abbreviation HTTP_400_BAD_REQUEST :: nat where "HTTP_400_BAD_REQUEST \<equiv> 400"
abbreviation HTTP_404_NOT_FOUND :: nat where "HTTP_404_NOT_FOUND \<equiv> 404"
abbreviation HTTP_500_INTERNAL_SERVER_ERROR :: nat where "HTTP_500_INTERNAL_SERVER_ERROR \<equiv> 500"

section \<open>Data model (app/models.py)\<close>

datatype ServerStatus = CREATED | RUNNING | STOPPED | DELETED

datatype InvoiceStatus = DRAFT | SENT | PAID | OVERDUE

datatype TransactionMethod = CREDIT_CARD | BANK_TRANSFER | PAYPAL

record server =
  srv_id :: string
  srv_user_id :: string
  srv_name :: string
  image :: string
  cpu_limit :: real
  cores :: int
  ram_gib :: real
  srv_disk_gib :: real
  srv_status :: ServerStatus
  container_id :: "string option"
  srv_created_at :: datetime
  updated_at :: datetime

record usage_sample =
  us_id :: string
  server_id :: string
  ts :: datetime
  cpu_pct :: real
  ram_mib :: real
  disk_gib :: real

record line_item =
  kind :: string
  unit :: string
  quantity :: real
  rate :: real
  amount :: real

record invoice =
  inv_id :: string
  user_id :: string
  period_start :: datetime
  period_end :: datetime
  line_items :: "line_item list"
  subtotal :: real
  total :: real
  status :: InvoiceStatus
  created_at :: datetime

record transaction =
  txn_id :: string
  invoice_id :: string
  txn_amount :: real
  txn_method :: TransactionMethod
  txn_ts :: datetime

text \<open>The fields a \<open>ServerUpdate\<close> request has set (\<open>dict(exclude_unset=True)\<close>); \<open>None\<close> is unset.\<close>

record server_update =
  upd_name :: "string option"
  upd_cpu_limit :: "real option"
  upd_cores :: "int option"
  upd_ram_gib :: "real option"
  upd_disk_gib :: "real option"

text \<open>Billing rates and sampling settings (app/config.py), with the defaults of the source.\<close>

record settings =
  vcpu_rate_per_core_hour :: real
  ram_rate_per_gib_hour :: real
  disk_rate_per_gib_hour :: real

definition default_settings :: settings where
  "default_settings =
     \<lparr>vcpu_rate_per_core_hour = 1 / 100,
      ram_rate_per_gib_hour = 15 / 10000,
      disk_rate_per_gib_hour = 5 / 100000\<rparr>"

section \<open>The document store\<close>

text \<open>
  Each collection is the list of its documents in insertion order. \<open>find_one\<close> returns the
  first match, \<open>update_one\<close> and \<open>delete_one\<close> act on the first match only, \<open>insert_one\<close> appends.
\<close>

record db =
  servers :: "server list"
  usage_samples :: "usage_sample list"
  invoices :: "invoice list"
  transactions :: "transaction list"

definition find_one :: "('a \<Rightarrow> bool) \<Rightarrow> 'a list \<Rightarrow> 'a option" where
  "find_one P xs = find P xs"

fun update_one :: "('a \<Rightarrow> bool) \<Rightarrow> ('a \<Rightarrow> 'a) \<Rightarrow> 'a list \<Rightarrow> 'a list" where
  "update_one P f [] = []"
| "update_one P f (x # xs) = (if P x then f x # xs else x # update_one P f xs)"

fun delete_one :: "('a \<Rightarrow> bool) \<Rightarrow> 'a list \<Rightarrow> 'a list" where
  "delete_one P [] = []"
| "delete_one P (x # xs) = (if P x then xs else x # delete_one P xs)"

definition insert_one :: "'a \<Rightarrow> 'a list \<Rightarrow> 'a list" where
  "insert_one x xs = xs @ [x]"

text \<open>The values the environment supplies to one request: a fresh \<open>uuid4\<close> and \<open>utcnow()\<close>.\<close>

record env =
  new_uuid :: string
  utcnow :: datetime

section \<open>Runtime adapter (app/docker_manager.py)\<close>

text \<open>
  The Docker SDK is an external library. A \<open>docker_client\<close> gives the outcome of each SDK
  call the adapter makes (\<open>Inl\<close> is the exception the call raises); a \<open>container\<close> is the
  object \<open>client.containers.get\<close> returns, with the outcome of each of its methods.
\<close>

record docker_stats =
  total_usage :: int
  pre_total_usage :: int
  system_cpu_usage :: int
  pre_system_cpu_usage :: int
  percpu_usage_len :: nat
  memory_usage :: int
  storage_stats :: "int option option"

record container =
  c_status :: string
  c_start :: "exn option"
  c_stop :: "exn option"
  c_remove :: "exn option"
  c_stats :: "exn + docker_stats"

record container_config =
  cfg_image :: string
  cfg_name :: string
  cpu_quota :: int
  cpu_period :: int
  mem_limit :: int
  memswap_limit :: int

record docker_client =
  images_get :: "string \<Rightarrow> exn option"
  images_pull :: "string list \<Rightarrow> exn option"
  containers_create :: "container_config \<Rightarrow> exn + string"
  containers_get :: "string \<Rightarrow> exn + container"

record docker_manager =
  client :: "docker_client option"
  available :: bool

text \<open>
  \<open>DockerManager.__init__\<close>: the argument is the outcome of connecting and pinging;
  on any exception the manager is left in mock mode.
\<close>

definition DockerManager_init :: "exn + docker_client \<Rightarrow> docker_manager" where
  "DockerManager_init conn =
     (case conn of
        Inr c \<Rightarrow> \<lparr>client = Some c, available = True\<rparr>
      | Inl e \<Rightarrow> \<lparr>client = None, available = False\<rparr>)"

definition lower_char :: "char \<Rightarrow> char" where
  "lower_char c =
     (let n = (of_char c :: nat) in if 65 \<le> n \<and> n \<le> 90 then char_of (n + 32) else c)"

definition lower :: "string \<Rightarrow> string" where
  "lower s = map lower_char s"

text \<open>\<open>s.split(sep, 1)\<close>\<close>

definition split_once :: "char \<Rightarrow> string \<Rightarrow> string list" where
  "split_once sep s =
     (if sep \<in> set s
      then [takeWhile (\<lambda>c. c \<noteq> sep) s, tl (dropWhile (\<lambda>c. c \<noteq> sep) s)]
      else [s])"

definition create_container_real :: "docker_client \<Rightarrow> server \<Rightarrow> exn + string" where
  "create_container_real c srv =
     (let cpu_quota = py_int (cpu_limit srv * 100000);
          cpu_period = 100000;
          memory_limit = py_int (ram_gib srv * 1024 * 1024 * 1024);
          image_name = lower (image srv);
          pulled = (case images_get c image_name of
                      None \<Rightarrow> None
                    | Some _ \<Rightarrow> images_pull c (split_once CHR '':'' image_name))
      in case pulled of
           Some e \<Rightarrow> Inl e
         | None \<Rightarrow>
             containers_create c
               \<lparr>cfg_image = image_name,
                cfg_name = ''autobit-server-'' @ srv_id srv,
                cpu_quota = cpu_quota,
                cpu_period = cpu_period,
                mem_limit = memory_limit,
                memswap_limit = memory_limit\<rparr>)"

text \<open>
  Every method but \<open>is_container_running\<close> starts with the guard
  \<open>if not self.available or self.client is None\<close>.
\<close>

definition create_container :: "docker_manager \<Rightarrow> server \<Rightarrow> exn + string" where
  "create_container dm srv =
     (case client dm of
        None \<Rightarrow> Inr (''mock-container-'' @ srv_id srv)
      | Some c \<Rightarrow>
          if \<not> available dm then Inr (''mock-container-'' @ srv_id srv)
          else create_container_real c srv)"

definition start_container :: "docker_manager \<Rightarrow> string \<Rightarrow> bool" where
  "start_container dm cid =
     (case client dm of
        None \<Rightarrow> True
      | Some c \<Rightarrow>
          if \<not> available dm then True
          else (case containers_get c cid of
                  Inl e \<Rightarrow> False
                | Inr ctr \<Rightarrow> (case c_start ctr of None \<Rightarrow> True | Some e \<Rightarrow> False)))"

definition stop_container :: "docker_manager \<Rightarrow> string \<Rightarrow> bool" where
  "stop_container dm cid =
     (case client dm of
        None \<Rightarrow> True
      | Some c \<Rightarrow>
          if \<not> available dm then True
          else (case containers_get c cid of
                  Inl e \<Rightarrow> False
                | Inr ctr \<Rightarrow> (case c_stop ctr of None \<Rightarrow> True | Some e \<Rightarrow> False)))"

definition delete_container :: "docker_manager \<Rightarrow> string \<Rightarrow> bool" where
  "delete_container dm cid =
     (case client dm of
        None \<Rightarrow> True
      | Some c \<Rightarrow>
          if \<not> available dm then True
          else (case containers_get c cid of
                  Inl e \<Rightarrow> False
                | Inr ctr \<Rightarrow> (case c_remove ctr of None \<Rightarrow> True | Some e \<Rightarrow> False)))"

text \<open>The stats mapping is a Python dict with string keys, kept as an association list.\<close>

type_synonym stats_dict = "(string \<times> real) list"

definition mock_stats :: stats_dict where
  "mock_stats = [(''cpu_percent'', 25), (''memory_usage_mb'', 512), (''disk_usage_gb'', 1)]"

definition real_stats :: "docker_stats \<Rightarrow> stats_dict" where
  "real_stats st =
     (let cpu_delta = total_usage st - pre_total_usage st;
          system_delta = system_cpu_usage st - pre_system_cpu_usage st;
          cpu_percent =
            (if 0 < system_delta \<and> 0 < cpu_delta
             then (of_int cpu_delta / of_int system_delta) * of_nat (percpu_usage_len st) * 100
             else 0);
          memory_usage = of_int (memory_usage st) / (1024 * 1024);
          disk_usage =
            (case storage_stats st of
               None \<Rightarrow> 0
             | Some None \<Rightarrow> 0 / (1024 * 1024 * 1024)
             | Some (Some sz) \<Rightarrow> of_int sz / (1024 * 1024 * 1024))
      in [(''cpu_percent'', py_round cpu_percent 2),
          (''memory_mb'', py_round memory_usage 2),
          (''disk_gb'', py_round disk_usage 2)])"

definition get_container_stats :: "docker_manager \<Rightarrow> string \<Rightarrow> stats_dict option" where
  "get_container_stats dm cid =
     (case client dm of
        None \<Rightarrow> Some mock_stats
      | Some c \<Rightarrow>
          if \<not> available dm then Some mock_stats
          else (case containers_get c cid of
                  Inl e \<Rightarrow> None
                | Inr ctr \<Rightarrow>
                    (case c_stats ctr of Inl e \<Rightarrow> None | Inr st \<Rightarrow> Some (real_stats st))))"

text \<open>
  \<open>update_container_resources\<close>: the body runs inside \<open>try\<close>; only \<open>create_container\<close> can
  raise, and then the method returns \<open>False\<close>. The results of stop, delete and start are
  not inspected, and \<open>new_container_id\<close> is a local that is not returned.
\<close>

definition update_container_resources :: "docker_manager \<Rightarrow> string \<Rightarrow> server \<Rightarrow> bool" where
  "update_container_resources dm cid srv =
     (let stopped = stop_container dm cid;
          deleted = delete_container dm cid
      in case create_container dm srv of
           Inl e \<Rightarrow> False
         | Inr new_container_id \<Rightarrow>
             (let started = start_container dm new_container_id in True))"

text \<open>
  \<open>is_container_running\<close> has no mock guard: with \<open>self.client = None\<close> the attribute access
  \<open>self.client.containers\<close> raises \<open>AttributeError\<close>, which the handler turns into \<open>False\<close>.
\<close>

definition is_container_running :: "docker_manager \<Rightarrow> string \<Rightarrow> bool" where
  "is_container_running dm cid =
     (case client dm of
        None \<Rightarrow> False
      | Some c \<Rightarrow>
          (case containers_get c cid of
             Inl e \<Rightarrow> False
           | Inr ctr \<Rightarrow> c_status ctr = ''running''))"

section \<open>Usage sampler (app/workers/usage_sampler.py)\<close>





section \<open>Server lifecycle (app/routers/servers.py)\<close>

text \<open>
  Every handler receives the authenticated caller's user id. Store calls are taken not to
  raise; event publication swallows its own failures and touches no collection, so it is
  left out.
\<close>

record server_create =
  new_name :: string
  new_image :: string
  new_cpu_limit :: real
  new_cores :: int
  new_ram_gib :: real
  new_disk_gib :: real

text \<open>\<open>if not server.container_id\<close>: \<open>None\<close> and the empty string are falsy.\<close>

definition truthy :: "string option \<Rightarrow> bool" where
  "truthy c = (case c of None \<Rightarrow> False | Some s \<Rightarrow> s \<noteq> [])"

definition create_server ::
  "docker_manager \<Rightarrow> env \<Rightarrow> string \<Rightarrow> server_create \<Rightarrow> db \<Rightarrow> (exn + server) \<times> db" where
  "create_server dm ev uid sc d =
     (if new_cpu_limit sc \<le> 0 \<or> new_cores sc \<le> 0 \<or> new_ram_gib sc \<le> 0 \<or> new_disk_gib sc \<le> 0
      then (Inl (HTTPException HTTP_400_BAD_REQUEST (Detail ''All resource values must be positive'')), d)
      else
        (let srv = \<lparr>srv_id = new_uuid ev, srv_user_id = uid, srv_name = new_name sc,
                    image = new_image sc, cpu_limit = new_cpu_limit sc, cores = new_cores sc,
                    ram_gib = new_ram_gib sc, srv_disk_gib = new_disk_gib sc,
                    srv_status = CREATED, container_id = None,
                    srv_created_at = utcnow ev, updated_at = utcnow ev\<rparr>
         in case create_container dm srv of
              Inl e \<Rightarrow>
                (Inl (HTTPException HTTP_500_INTERNAL_SERVER_ERROR
                        (DetailStr ''Failed to create server: '' e)), d)
            | Inr cid \<Rightarrow>
                (let srv' = srv\<lparr>container_id := Some cid\<rparr>
                 in (Inr srv', d\<lparr>servers := insert_one srv' (servers d)\<rparr>))))"

definition list_servers :: "string \<Rightarrow> db \<Rightarrow> server list" where
  "list_servers uid d = filter (\<lambda>s. srv_user_id s = uid) (servers d)"

definition get_server :: "string \<Rightarrow> string \<Rightarrow> db \<Rightarrow> exn + server" where
  "get_server uid sid d =
     (case find_one (\<lambda>s. srv_id s = sid \<and> srv_user_id s = uid) (servers d) of
        None \<Rightarrow> Inl (HTTPException HTTP_404_NOT_FOUND (Detail ''Server not found''))
      | Some srv \<Rightarrow> Inr srv)"

definition start_server ::
  "docker_manager \<Rightarrow> env \<Rightarrow> string \<Rightarrow> string \<Rightarrow> db \<Rightarrow> (exn + string) \<times> db" where
  "start_server dm ev uid sid d =
     (case find_one (\<lambda>s. srv_id s = sid \<and> srv_user_id s = uid) (servers d) of
        None \<Rightarrow> (Inl (HTTPException HTTP_404_NOT_FOUND (Detail ''Server not found'')), d)
      | Some srv \<Rightarrow>
          if srv_status srv = RUNNING
          then (Inl (HTTPException HTTP_400_BAD_REQUEST (Detail ''Server is already running'')), d)
          else if \<not> truthy (container_id srv)
          then (Inl (HTTPException HTTP_400_BAD_REQUEST (Detail ''Server container not found'')), d)
          else if start_container dm (the (container_id srv))
          then (Inr ''Server started successfully'',
                d\<lparr>servers := update_one (\<lambda>s. srv_id s = sid)
                     (\<lambda>s. s\<lparr>srv_status := RUNNING, updated_at := utcnow ev\<rparr>) (servers d)\<rparr>)
          else (Inl (HTTPException HTTP_500_INTERNAL_SERVER_ERROR
                      (DetailStr ''Failed to start server: ''
                         (HTTPException HTTP_500_INTERNAL_SERVER_ERROR
                            (Detail ''Failed to start server'')))), d))"

definition stop_server ::
  "docker_manager \<Rightarrow> env \<Rightarrow> string \<Rightarrow> string \<Rightarrow> db \<Rightarrow> (exn + string) \<times> db" where
  "stop_server dm ev uid sid d =
     (case find_one (\<lambda>s. srv_id s = sid \<and> srv_user_id s = uid) (servers d) of
        None \<Rightarrow> (Inl (HTTPException HTTP_404_NOT_FOUND (Detail ''Server not found'')), d)
      | Some srv \<Rightarrow>
          if srv_status srv = STOPPED
          then (Inl (HTTPException HTTP_400_BAD_REQUEST (Detail ''Server is already stopped'')), d)
          else if \<not> truthy (container_id srv)
          then (Inl (HTTPException HTTP_400_BAD_REQUEST (Detail ''Server container not found'')), d)
          else if stop_container dm (the (container_id srv))
          then (Inr ''Server stopped successfully'',
                d\<lparr>servers := update_one (\<lambda>s. srv_id s = sid)
                     (\<lambda>s. s\<lparr>srv_status := STOPPED, updated_at := utcnow ev\<rparr>) (servers d)\<rparr>)
          else (Inl (HTTPException HTTP_500_INTERNAL_SERVER_ERROR
                      (DetailStr ''Failed to stop server: ''
                         (HTTPException HTTP_500_INTERNAL_SERVER_ERROR
                            (Detail ''Failed to stop server'')))), d))"

text \<open>The validation loop of \<open>update_server\<close> visits the four resource fields in order.\<close>

definition update_invalid_field :: "server_update \<Rightarrow> string option" where
  "update_invalid_field u =
     (if (case upd_cpu_limit u of Some v \<Rightarrow> v \<le> 0 | None \<Rightarrow> False) then Some ''cpu_limit''
      else if (case upd_cores u of Some v \<Rightarrow> v \<le> 0 | None \<Rightarrow> False) then Some ''cores''
      else if (case upd_ram_gib u of Some v \<Rightarrow> v \<le> 0 | None \<Rightarrow> False) then Some ''ram_gib''
      else if (case upd_disk_gib u of Some v \<Rightarrow> v \<le> 0 | None \<Rightarrow> False) then Some ''disk_gib''
      else None)"

definition update_is_empty :: "server_update \<Rightarrow> bool" where
  "update_is_empty u \<longleftrightarrow>
     upd_name u = None \<and> upd_cpu_limit u = None \<and> upd_cores u = None
     \<and> upd_ram_gib u = None \<and> upd_disk_gib u = None"

definition touches_resources :: "server_update \<Rightarrow> bool" where
  "touches_resources u \<longleftrightarrow>
     upd_cpu_limit u \<noteq> None \<or> upd_cores u \<noteq> None
     \<or> upd_ram_gib u \<noteq> None \<or> upd_disk_gib u \<noteq> None"

text \<open>\<open>for field, value in update_data.items(): setattr(server, field, value)\<close>\<close>

definition apply_update :: "server_update \<Rightarrow> server \<Rightarrow> server" where
  "apply_update u srv =
     srv\<lparr>srv_name := (case upd_name u of Some v \<Rightarrow> v | None \<Rightarrow> srv_name srv),
         cpu_limit := (case upd_cpu_limit u of Some v \<Rightarrow> v | None \<Rightarrow> cpu_limit srv),
         cores := (case upd_cores u of Some v \<Rightarrow> v | None \<Rightarrow> cores srv),
         ram_gib := (case upd_ram_gib u of Some v \<Rightarrow> v | None \<Rightarrow> ram_gib srv),
         srv_disk_gib := (case upd_disk_gib u of Some v \<Rightarrow> v | None \<Rightarrow> srv_disk_gib srv)\<rparr>"

definition update_server ::
  "docker_manager \<Rightarrow> env \<Rightarrow> string \<Rightarrow> string \<Rightarrow> server_update \<Rightarrow> db \<Rightarrow> (exn + server) \<times> db" where
  "update_server dm ev uid sid u d =
     (case find_one (\<lambda>s. srv_id s = sid \<and> srv_user_id s = uid) (servers d) of
        None \<Rightarrow> (Inl (HTTPException HTTP_404_NOT_FOUND (Detail ''Server not found'')), d)
      | Some srv0 \<Rightarrow>
          if update_is_empty u
          then (Inl (HTTPException HTTP_400_BAD_REQUEST (Detail ''No fields to update'')), d)
          else
            (case update_invalid_field u of
               Some field \<Rightarrow>
                 (Inl (HTTPException HTTP_400_BAD_REQUEST (Detail (field @ '' must be positive''))), d)
             | None \<Rightarrow>
                 (let srv = (apply_update u srv0)\<lparr>updated_at := utcnow ev\<rparr>;
                      success =
                        (if srv_status srv = RUNNING \<and> truthy (container_id srv)
                            \<and> touches_resources u
                         then update_container_resources dm (the (container_id srv)) srv
                         else True)
                  in if \<not> success
                     then (Inl (HTTPException HTTP_500_INTERNAL_SERVER_ERROR
                                  (DetailStr ''Failed to update server: ''
                                     (HTTPException HTTP_500_INTERNAL_SERVER_ERROR
                                        (Detail ''Failed to update server resources'')))), d)
                     else (Inr srv,
                           d\<lparr>servers := update_one (\<lambda>s. srv_id s = sid) (\<lambda>_. srv) (servers d)\<rparr>))))"

definition delete_server ::
  "docker_manager \<Rightarrow> string \<Rightarrow> string \<Rightarrow> db \<Rightarrow> (exn + string) \<times> db" where
  "delete_server dm uid sid d =
     (case find_one (\<lambda>s. srv_id s = sid \<and> srv_user_id s = uid) (servers d) of
        None \<Rightarrow> (Inl (HTTPException HTTP_404_NOT_FOUND (Detail ''Server not found'')), d)
      | Some srv \<Rightarrow>
          (let deleted = (if truthy (container_id srv)
                          then delete_container dm (the (container_id srv)) else True)
           in (Inr ''Server deleted successfully'',
               d\<lparr>servers := delete_one (\<lambda>s. srv_id s = sid \<and> srv_user_id s = uid) (servers d)\<rparr>)))"

section \<open>Usage aggregation (app/routers/usage.py)\<close>

text \<open>
  The aggregation pipeline runs in the document store. \<open>$match\<close> keeps the samples of the
  server with \<open>from_date \<le> ts \<le> to_date\<close> (\<open>$gte\<close>, \<open>$lte\<close>), \<open>$sort\<close> orders them by \<open>ts\<close>.
  \<open>$dateTrunc\<close> truncates a timestamp to a multiple of the bin size. \<open>$group\<close> makes one
  document per distinct key, with the \<open>$avg\<close> of each field and the count; the store emits
  the groups in an order of its own choosing, given here by a ranking \<open>store_order\<close> of the
  group keys. \<open>$project\<close> rounds each average to 2 decimals. The \<open>ts\<close> of a returned row is
  kept as a \<open>datetime\<close> (the handler renders it with \<open>isoformat\<close>), and the detail of the
  rejection of an unknown interval shows the list of valid intervals without the quotes
  of its Python rendering.
\<close>

record bucket_row =
  b_ts :: datetime
  b_cpu_pct :: real
  b_ram_mib :: real
  b_disk_gib :: real
  sample_count :: nat

datatype usage_row = RawRow usage_sample | BucketRow bucket_row

record usage_response =
  r_server_id :: string
  from_date :: datetime
  to_date :: datetime
  r_interval :: string
  data :: "usage_row list"

definition match_stage :: "string \<Rightarrow> datetime \<Rightarrow> datetime \<Rightarrow> usage_sample list \<Rightarrow> usage_sample list" where
  "match_stage sid from_d to_d xs =
     filter (\<lambda>s. server_id s = sid \<and> from_d \<le> ts s \<and> ts s \<le> to_d) xs"

definition sort_stage :: "usage_sample list \<Rightarrow> usage_sample list" where
  "sort_stage xs = sort_key ts xs"

definition date_trunc :: "int \<Rightarrow> datetime \<Rightarrow> datetime" where
  "date_trunc bin t = t - t mod bin"

definition avg :: "real list \<Rightarrow> real" where
  "avg xs = sum_list xs / of_nat (length xs)"

definition group_doc :: "int \<Rightarrow> usage_sample list \<Rightarrow> datetime \<Rightarrow> bucket_row" where
  "group_doc bin xs k =
     (let grp = filter (\<lambda>s. date_trunc bin (ts s) = k) xs
      in \<lparr>b_ts = k, b_cpu_pct = avg (map cpu_pct grp), b_ram_mib = avg (map ram_mib grp),
          b_disk_gib = avg (map disk_gib grp), sample_count = length grp\<rparr>)"

definition group_stage :: "(datetime \<Rightarrow> int) \<Rightarrow> int \<Rightarrow> usage_sample list \<Rightarrow> bucket_row list" where
  "group_stage store_order bin xs =
     map (group_doc bin xs)
       (sort_key store_order (remdups (map (\<lambda>s. date_trunc bin (ts s)) xs)))"

definition project_stage :: "bucket_row \<Rightarrow> bucket_row" where
  "project_stage g =
     \<lparr>b_ts = b_ts g, b_cpu_pct = py_round (b_cpu_pct g) 2, b_ram_mib = py_round (b_ram_mib g) 2,
      b_disk_gib = py_round (b_disk_gib g) 2, sample_count = sample_count g\<rparr>"

text \<open>Bin sizes in microseconds: 5 minutes, one hour, one day.\<close>

definition bin_size :: "string \<Rightarrow> int" where
  "bin_size interval =
     (if interval = ''5m'' then 300000000
      else if interval = ''1h'' then 3600000000
      else 86400000000)"

definition aggregate :: "(datetime \<Rightarrow> int) \<Rightarrow> string \<Rightarrow> string \<Rightarrow> datetime \<Rightarrow> datetime
    \<Rightarrow> usage_sample list \<Rightarrow> usage_row list" where
  "aggregate store_order interval sid from_d to_d xs =
     (let sorted = sort_stage (match_stage sid from_d to_d xs)
      in if interval = ''1m'' then map RawRow sorted
         else map (BucketRow \<circ> project_stage) (group_stage store_order (bin_size interval) sorted))"

definition get_server_usage ::
  "(datetime \<Rightarrow> int) \<Rightarrow> env \<Rightarrow> string \<Rightarrow> string \<Rightarrow> datetime option \<Rightarrow> datetime option \<Rightarrow> string
    \<Rightarrow> db \<Rightarrow> exn + usage_response" where
  "get_server_usage store_order ev uid sid from_opt to_opt interval d =
     (case find_one (\<lambda>s. srv_id s = sid \<and> srv_user_id s = uid) (servers d) of
        None \<Rightarrow> Inl (HTTPException HTTP_404_NOT_FOUND (Detail ''Server not found''))
      | Some srv \<Rightarrow>
          (let to_d = (case to_opt of None \<Rightarrow> utcnow ev | Some t \<Rightarrow> t);
               from_d = (case from_opt of None \<Rightarrow> to_d - 7 * 86400000000 | Some t \<Rightarrow> t)
           in if interval \<notin> set [''1m'', ''5m'', ''1h'', ''1d'']
              then Inl (HTTPException HTTP_400_BAD_REQUEST
                          (Detail ''Invalid interval. Must be one of: [1m, 5m, 1h, 1d]''))
              else Inr \<lparr>r_server_id = sid, from_date = from_d, to_date = to_d,
                        r_interval = interval,
                        data = aggregate store_order interval sid from_d to_d (usage_samples d)\<rparr>))"

section \<open>Billing (app/routers/billing.py)\<close>

record invoice_generate_request =
  req_period_start :: datetime
  req_period_end :: datetime

text \<open>The samples of one server in \<open>[period_start, period_end)\<close>, sorted by \<open>ts\<close>.\<close>

definition samples_in_period :: "db \<Rightarrow> string \<Rightarrow> datetime \<Rightarrow> datetime \<Rightarrow> usage_sample list" where
  "samples_in_period d sid p_start p_end =
     sort_key ts (filter (\<lambda>s. server_id s = sid \<and> p_start \<le> ts s \<and> ts s < p_end) (usage_samples d))"

text \<open>
  The loop \<open>for i in range(len(usage_samples) - 1)\<close>; the accumulator is
  \<open>(vcpu_hours, ram_hours, disk_hours)\<close>.
\<close>

definition hours_step :: "server \<Rightarrow> usage_sample list \<Rightarrow> nat \<Rightarrow> real \<times> real \<times> real \<Rightarrow> real \<times> real \<times> real" where
  "hours_step srv xs i acc =
     (case acc of (vcpu_hours, ram_hours, disk_hours) \<Rightarrow>
        (let current_sample = xs ! i;
             next_sample = xs ! (i + 1);
             time_diff = total_seconds (ts next_sample - ts current_sample) / 3600
         in (vcpu_hours + (cpu_pct current_sample / 100) * of_int (cores srv) * time_diff,
             ram_hours + (ram_mib current_sample / 1024) * time_diff,
             disk_hours + srv_disk_gib srv * time_diff)))"

definition resource_hours :: "server \<Rightarrow> usage_sample list \<Rightarrow> real \<times> real \<times> real" where
  "resource_hours srv xs = fold (hours_step srv xs) [0..<length xs - 1] (0, 0, 0)"

definition mk_line_item :: "string \<Rightarrow> string \<Rightarrow> real \<Rightarrow> real \<Rightarrow> line_item" where
  "mk_line_item k u hours r =
     \<lparr>kind = k, unit = u, quantity = py_round hours 4, rate = r, amount = py_round (hours * r) 4\<rparr>"

text \<open>
  The three \<open>if hours > 0\<close> blocks of one server, in order vCPU, RAM, Disk: each gives a
  line item and the unrounded amount that is added to \<open>total_amount\<close>.
\<close>

definition server_line_items :: "settings \<Rightarrow> real \<times> real \<times> real \<Rightarrow> (line_item \<times> real) list" where
  "server_line_items st h =
     (case h of (vcpu_hours, ram_hours, disk_hours) \<Rightarrow>
        (if 0 < vcpu_hours
         then [(mk_line_item ''vCPU'' ''core-hour'' vcpu_hours (vcpu_rate_per_core_hour st),
                vcpu_hours * vcpu_rate_per_core_hour st)] else [])
        @ (if 0 < ram_hours
           then [(mk_line_item ''RAM'' ''gib-hour'' ram_hours (ram_rate_per_gib_hour st),
                  ram_hours * ram_rate_per_gib_hour st)] else [])
        @ (if 0 < disk_hours
           then [(mk_line_item ''Disk'' ''gib-hour'' disk_hours (disk_rate_per_gib_hour st),
                  disk_hours * disk_rate_per_gib_hour st)] else []))"

text \<open>The body of \<open>for server in servers\<close>; the accumulator is \<open>(line_items, total_amount)\<close>.\<close>

definition bill_server ::
  "settings \<Rightarrow> db \<Rightarrow> datetime \<Rightarrow> datetime \<Rightarrow> server \<Rightarrow> line_item list \<times> real \<Rightarrow> line_item list \<times> real" where
  "bill_server st d p_start p_end srv acc =
     (let usage = samples_in_period d (srv_id srv) p_start p_end
      in if usage = [] then acc
         else
           (let billed = server_line_items st (resource_hours srv usage)
            in (fst acc @ map fst billed, fold (\<lambda>a t. t + a) (map snd billed) (snd acc))))"

text \<open>
  The check for servers and everything after it run inside \<open>try: ... except Exception\<close>,
  whose handler raises a 500 built from the caught exception; \<open>HTTPException\<close> is an
  \<open>Exception\<close>.
\<close>

definition generate_invoice ::
  "settings \<Rightarrow> env \<Rightarrow> string \<Rightarrow> invoice_generate_request \<Rightarrow> db \<Rightarrow> (exn + invoice) \<times> db" where
  "generate_invoice st ev uid req d =
     (if req_period_end req \<le> req_period_start req
      then (Inl (HTTPException HTTP_400_BAD_REQUEST
                   (Detail ''Period start must be before period end'')), d)
      else
        (case find_one (\<lambda>i. user_id i = uid \<and> period_start i = req_period_start req
                            \<and> period_end i = req_period_end req) (invoices d) of
           Some existing \<Rightarrow>
             (Inl (HTTPException HTTP_400_BAD_REQUEST
                     (Detail ''Invoice already exists for this period'')), d)
         | None \<Rightarrow>
             (let user_servers = filter (\<lambda>s. srv_user_id s = uid) (servers d)
              in if user_servers = []
                 then (Inl (HTTPException HTTP_500_INTERNAL_SERVER_ERROR
                              (DetailStr ''Failed to generate invoice: ''
                                 (HTTPException HTTP_400_BAD_REQUEST
                                    (Detail ''No servers found for user'')))), d)
                 else
                   (let acc = fold (bill_server st d (req_period_start req) (req_period_end req))
                                user_servers ([], 0);
                        ivc = \<lparr>inv_id = new_uuid ev, user_id = uid,
                               period_start = req_period_start req,
                               period_end = req_period_end req,
                               line_items = fst acc,
                               subtotal = py_round (snd acc) 4,
                               total = py_round (snd acc) 4,
                               status = DRAFT,
                               created_at = utcnow ev\<rparr>
                    in (Inr ivc, d\<lparr>invoices := insert_one ivc (invoices d)\<rparr>)))))"

definition list_invoices :: "string \<Rightarrow> db \<Rightarrow> invoice list" where
  "list_invoices uid d = rev (sort_key created_at (filter (\<lambda>i. user_id i = uid) (invoices d)))"

definition get_invoice :: "string \<Rightarrow> string \<Rightarrow> db \<Rightarrow> exn + invoice" where
  "get_invoice uid iid d =
     (case find_one (\<lambda>i. inv_id i = iid \<and> user_id i = uid) (invoices d) of
        None \<Rightarrow> Inl (HTTPException HTTP_404_NOT_FOUND (Detail ''Invoice not found''))
      | Some ivc \<Rightarrow> Inr ivc)"

definition pay_invoice ::
  "env \<Rightarrow> string \<Rightarrow> string \<Rightarrow> TransactionMethod \<Rightarrow> db \<Rightarrow> (exn + transaction) \<times> db" where
  "pay_invoice ev uid iid m d =
     (case find_one (\<lambda>i. inv_id i = iid \<and> user_id i = uid) (invoices d) of
        None \<Rightarrow> (Inl (HTTPException HTTP_404_NOT_FOUND (Detail ''Invoice not found'')), d)
      | Some ivc \<Rightarrow>
          if status ivc = PAID
          then (Inl (HTTPException HTTP_400_BAD_REQUEST (Detail ''Invoice is already paid'')), d)
          else
            (let txn = \<lparr>txn_id = new_uuid ev, invoice_id = iid, txn_amount = total ivc,
                        txn_method = m, txn_ts = utcnow ev\<rparr>
             in (Inr txn,
                 d\<lparr>transactions := insert_one txn (transactions d),
                   invoices := update_one (\<lambda>i. inv_id i = iid) (\<lambda>i. i\<lparr>status := PAID\<rparr>)
                                 (invoices d)\<rparr>)))"

section \<open>The caller-facing operations\<close>

text \<open>
  The routes of the three routers, each called with the authenticated user id. A request
  names the route and carries its path and body parameters.
\<close>

datatype request =
    CreateServer server_create
  | ListServers
  | GetServer string
  | StartServer string
  | StopServer string
  | UpdateServer string server_update
  | DeleteServer string
  | GetServerUsage string "datetime option" "datetime option" string
  | GenerateInvoice invoice_generate_request
  | ListInvoices
  | GetInvoice string
  | PayInvoice string TransactionMethod

datatype response =
    ServerResponse server
  | ServerList "server list"
  | SuccessResponse string
  | UsageResponse usage_response
  | InvoiceResponse invoice
  | InvoiceList "invoice list"
  | TransactionResponse transaction

definition respond :: "('a \<Rightarrow> response) \<Rightarrow> (exn + 'a) \<times> db \<Rightarrow> (exn + response) \<times> db" where
  "respond f r = (case fst r of Inl e \<Rightarrow> Inl e | Inr x \<Rightarrow> Inr (f x), snd r)"

fun handle_request ::
  "docker_manager \<Rightarrow> settings \<Rightarrow> (datetime \<Rightarrow> int) \<Rightarrow> env \<Rightarrow> string \<Rightarrow> request \<Rightarrow> db
    \<Rightarrow> (exn + response) \<times> db" where
  "handle_request dm st so ev uid (CreateServer sc) d =
     respond ServerResponse (create_server dm ev uid sc d)"
| "handle_request dm st so ev uid ListServers d =
     (Inr (ServerList (list_servers uid d)), d)"
| "handle_request dm st so ev uid (GetServer sid) d =
     respond ServerResponse (get_server uid sid d, d)"
| "handle_request dm st so ev uid (StartServer sid) d =
     respond SuccessResponse (start_server dm ev uid sid d)"
| "handle_request dm st so ev uid (StopServer sid) d =
     respond SuccessResponse (stop_server dm ev uid sid d)"
| "handle_request dm st so ev uid (UpdateServer sid u) d =
     respond ServerResponse (update_server dm ev uid sid u d)"
| "handle_request dm st so ev uid (DeleteServer sid) d =
     respond SuccessResponse (delete_server dm uid sid d)"
| "handle_request dm st so ev uid (GetServerUsage sid from_opt to_opt interval) d =
     respond UsageResponse (get_server_usage so ev uid sid from_opt to_opt interval d, d)"
| "handle_request dm st so ev uid (GenerateInvoice req) d =
     respond InvoiceResponse (generate_invoice st ev uid req d)"
| "handle_request dm st so ev uid ListInvoices d =
     (Inr (InvoiceList (list_invoices uid d)), d)"
| "handle_request dm st so ev uid (GetInvoice iid) d =
     respond InvoiceResponse (get_invoice uid iid d, d)"
| "handle_request dm st so ev uid (PayInvoice iid m) d =
     respond TransactionResponse (pay_invoice ev uid iid m d)"

section \<open>Specification-side notions\<close>

text \<open>The number of samples a row of a usage response stands for.\<close>

fun row_count :: "usage_row \<Rightarrow> nat" where
  "row_count (RawRow s) = 1"
| "row_count (BucketRow b) = sample_count b"

text \<open>The samples of a server selected by a usage query with bounds \<open>from\<close> and \<open>to\<close>.\<close>

definition in_range :: "string \<Rightarrow> datetime \<Rightarrow> datetime \<Rightarrow> usage_sample \<Rightarrow> bool" where
  "in_range sid from_d to_d s \<longleftrightarrow> server_id s = sid \<and> from_d \<le> ts s \<and> ts s \<le> to_d"

text \<open>
  The row of one bucket in the spec's words: bucket start, the arithmetic mean of each
  field over the samples whose truncated \<open>ts\<close> matches (here rounded to 2 decimals), and
  the number of those samples.
\<close>

definition spec_bucket_row :: "int \<Rightarrow> usage_sample list \<Rightarrow> datetime \<Rightarrow> bucket_row" where
  "spec_bucket_row bin xs h =
     (let grp = filter (\<lambda>s. date_trunc bin (ts s) = h) xs
      in \<lparr>b_ts = h,
          b_cpu_pct = py_round (sum_list (map cpu_pct grp) / of_nat (length grp)) 2,
          b_ram_mib = py_round (sum_list (map ram_mib grp) / of_nat (length grp)) 2,
          b_disk_gib = py_round (sum_list (map disk_gib grp) / of_nat (length grp)) 2,
          sample_count = length grp\<rparr>)"




text \<open>
  Ownership: the store as one user sees it (that user's servers and invoices), and the
  servers and invoices of everybody else.
\<close>

definition own_view :: "string \<Rightarrow> db \<Rightarrow> db" where
  "own_view uid d =
     d\<lparr>servers := filter (\<lambda>s. srv_user_id s = uid) (servers d),
       invoices := filter (\<lambda>i. user_id i = uid) (invoices d)\<rparr>"

definition others_servers :: "string \<Rightarrow> db \<Rightarrow> server list" where
  "others_servers uid d = filter (\<lambda>s. srv_user_id s \<noteq> uid) (servers d)"

definition others_invoices :: "string \<Rightarrow> db \<Rightarrow> invoice list" where
  "others_invoices uid d = filter (\<lambda>i. user_id i \<noteq> uid) (invoices d)"

section \<open>Concrete inputs\<close>

text \<open>A manager built when the connection to the runtime failed, and a running server.\<close>

definition mock_manager :: docker_manager where
  "mock_manager = DockerManager_init (Inl (DockerError ''connection refused''))"

definition example_server :: server where
  "example_server =
     \<lparr>srv_id = ''s1'', srv_user_id = ''alice'', srv_name = ''web'', image = ''nginx:latest'',
      cpu_limit = 1, cores = 2, ram_gib = 1, srv_disk_gib = 10, srv_status = RUNNING,
      container_id = Some ''old-container'', srv_created_at = 0, updated_at = 0\<rparr>"

text \<open>
  A client on which every call succeeds: each container is running, and a newly created
  container gets the id \<open>new-container\<close>.
\<close>

definition running_container :: container where
  "running_container =
     \<lparr>c_status = ''running'', c_start = None, c_stop = None, c_remove = None,
      c_stats = Inr \<lparr>total_usage = 200, pre_total_usage = 100, system_cpu_usage = 2000,
                     pre_system_cpu_usage = 1000, percpu_usage_len = 2,
                     memory_usage = 536870912, storage_stats = None\<rparr>\<rparr>"

definition example_client :: docker_client where
  "example_client =
     \<lparr>images_get = (\<lambda>_. None), images_pull = (\<lambda>_. None),
      containers_create = (\<lambda>_. Inr ''new-container''),
      containers_get = (\<lambda>_. Inr running_container)\<rparr>"

definition real_manager :: docker_manager where
  "real_manager = DockerManager_init (Inr example_client)"

definition example_env :: env where
  "example_env = \<lparr>new_uuid = ''u-1'', utcnow = 7200000000\<rparr>"

definition empty_db :: db where
  "empty_db = \<lparr>servers = [], usage_samples = [], invoices = [], transactions = []\<rparr>"

text \<open>A resource update of the running server, and the store holding that server.\<close>

definition example_update :: server_update where
  "example_update =
     \<lparr>upd_name = None, upd_cpu_limit = Some 2, upd_cores = None, upd_ram_gib = None,
      upd_disk_gib = None\<rparr>"

definition running_db :: db where
  "running_db = \<lparr>servers = [example_server], usage_samples = [], invoices = [], transactions = []\<rparr>"

definition updated_server :: server where
  "updated_server = example_server\<lparr>cpu_limit := 2, updated_at := 7200000000\<rparr>"

text \<open>A draft invoice of \<open>alice\<close>, and stores holding it unpaid and paid.\<close>

definition draft_invoice :: invoice where
  "draft_invoice =
     \<lparr>inv_id = ''i1'', user_id = ''alice'', period_start = 0, period_end = 3600000000,
      line_items = [], subtotal = 1 / 100, total = 1 / 100, status = DRAFT, created_at = 0\<rparr>"

definition draft_db :: db where
  "draft_db = \<lparr>servers = [], usage_samples = [], invoices = [draft_invoice], transactions = []\<rparr>"

definition paid_db :: db where
  "paid_db = \<lparr>servers = [], usage_samples = [],
              invoices = [draft_invoice\<lparr>status := PAID\<rparr>], transactions = []\<rparr>"

text \<open>A sample whose \<open>ts\<close> is the end bound of the query, and four samples in two hours.\<close>

definition boundary_sample :: usage_sample where
  "boundary_sample = \<lparr>us_id = ''u1'', server_id = ''s1'', ts = 7200000000, cpu_pct = 50,
     ram_mib = 512, disk_gib = 1\<rparr>"

definition boundary_db :: db where
  "boundary_db = \<lparr>servers = [example_server], usage_samples = [boundary_sample], invoices = [],
     transactions = []\<rparr>"

definition hour_samples :: "usage_sample list" where
  "hour_samples =
     [\<lparr>us_id = ''a1'', server_id = ''s1'', ts = 0, cpu_pct = 0, ram_mib = 100, disk_gib = 1\<rparr>,
      \<lparr>us_id = ''a2'', server_id = ''s1'', ts = 60000000, cpu_pct = 0, ram_mib = 100, disk_gib = 1\<rparr>,
      \<lparr>us_id = ''a3'', server_id = ''s1'', ts = 120000000, cpu_pct = 1, ram_mib = 100, disk_gib = 1\<rparr>,
      \<lparr>us_id = ''b1'', server_id = ''s1'', ts = 3600000000, cpu_pct = 50, ram_mib = 100, disk_gib = 1\<rparr>]"

definition hour_db :: db where
  "hour_db = \<lparr>servers = [example_server], usage_samples = hour_samples, invoices = [],
     transactions = []\<rparr>"

text \<open>
  Two samples one hour apart, with \<open>cpu_pct = 50\<close> at the earlier one, for the server \<open>s1\<close>
  with 2 cores; the invoice generated from them at the default rates.
\<close>

definition billing_samples :: "usage_sample list" where
  "billing_samples =
     [\<lparr>us_id = ''t0'', server_id = ''s1'', ts = 0, cpu_pct = 50, ram_mib = 1024, disk_gib = 1\<rparr>,
      \<lparr>us_id = ''t1'', server_id = ''s1'', ts = 3600000000, cpu_pct = 80, ram_mib = 2048, disk_gib = 1\<rparr>]"

definition billing_db :: db where
  "billing_db = \<lparr>servers = [example_server], usage_samples = billing_samples, invoices = [],
     transactions = []\<rparr>"

definition billing_request :: invoice_generate_request where
  "billing_request = \<lparr>req_period_start = 0, req_period_end = 7200000000\<rparr>"

definition billing_invoice :: invoice where
  "billing_invoice =
     \<lparr>inv_id = ''u-1'', user_id = ''alice'', period_start = 0, period_end = 7200000000,
      line_items =
        [\<lparr>kind = ''vCPU'', unit = ''core-hour'', quantity = 1, rate = 1 / 100, amount = 1 / 100\<rparr>,
         \<lparr>kind = ''RAM'', unit = ''gib-hour'', quantity = 1, rate = 15 / 10000, amount = 15 / 10000\<rparr>,
         \<lparr>kind = ''Disk'', unit = ''gib-hour'', quantity = 10, rate = 5 / 100000, amount = 5 / 10000\<rparr>],
      subtotal = 12 / 1000, total = 12 / 1000, status = DRAFT, created_at = 7200000000\<rparr>"

text \<open>Two samples 599.976 seconds apart, and the invoice generated from them.\<close>

definition rounding_samples :: "usage_sample list" where
  "rounding_samples =
     [\<lparr>us_id = ''r0'', server_id = ''s1'', ts = 0, cpu_pct = 0, ram_mib = 1024, disk_gib = 1\<rparr>,
      \<lparr>us_id = ''r1'', server_id = ''s1'', ts = 599976000, cpu_pct = 0, ram_mib = 1024, disk_gib = 1\<rparr>]"

definition rounding_db :: db where
  "rounding_db = \<lparr>servers = [example_server], usage_samples = rounding_samples, invoices = [],
     transactions = []\<rparr>"

definition rounding_invoice :: invoice where
  "rounding_invoice =
     \<lparr>inv_id = ''u-1'', user_id = ''alice'', period_start = 0, period_end = 7200000000,
      line_items =
        [\<lparr>kind = ''RAM'', unit = ''gib-hour'', quantity = 1667 / 10000, rate = 15 / 10000,
          amount = 2 / 10000\<rparr>,
         \<lparr>kind = ''Disk'', unit = ''gib-hour'', quantity = 16666 / 10000, rate = 5 / 100000,
          amount = 1 / 10000\<rparr>],
      subtotal = 3 / 10000, total = 3 / 10000, status = DRAFT, created_at = 7200000000\<rparr>"

text \<open>
  Records of two users: a store in which \<open>bob\<close>'s server and invoice carry the same ids as
  \<open>alice\<close>'s and come first, and a store in which all ids differ.
\<close>

definition alice_server :: server where
  "alice_server = example_server\<lparr>srv_status := STOPPED\<rparr>"

definition bob_server :: server where
  "bob_server = example_server\<lparr>srv_user_id := ''bob'', srv_status := STOPPED,
     container_id := Some ''bob-container''\<rparr>"

definition bob_invoice :: invoice where
  "bob_invoice = draft_invoice\<lparr>user_id := ''bob''\<rparr>"

definition shared_id_db :: db where
  "shared_id_db = \<lparr>servers = [bob_server, alice_server], usage_samples = [],
     invoices = [bob_invoice, draft_invoice], transactions = []\<rparr>"

definition two_user_db :: db where
  "two_user_db = \<lparr>servers = [bob_server\<lparr>srv_id := ''s2''\<rparr>, alice_server], usage_samples = [],
     invoices = [bob_invoice\<lparr>inv_id := ''i2''\<rparr>, draft_invoice], transactions = []\<rparr>"

section \<open>Runtime adapter in mock mode\<close>

text \<open>
  C2 as stated fails: a manager constructed without a runtime connection returns the
  handle \<open>mock-container-s1\<close> for the server \<open>s1\<close>, not \<open>mock-s1\<close>, and the liveness probe
  reports that handle as not running.
\<close>

theorem mock_handle_and_probe_counterexample:
  "create_container mock_manager example_server = Inr ''mock-container-s1''
   \<and> create_container mock_manager example_server \<noteq> Inr ''mock-s1''
   \<and> \<not> is_container_running mock_manager ''mock-container-s1''"
  by (simp add: mock_manager_def example_server_def DockerManager_init_def create_container_def
      is_container_running_def)

text \<open>
  C2, amended: for a manager constructed without a runtime connection, create returns
  \<open>mock-container-<serverId>\<close>, start, stop and delete return success on every handle, and
  stats returns the fixed mock mapping.
\<close>

theorem mock_mode_adapter_calls:
  "create_container (DockerManager_init (Inl e)) srv = Inr (''mock-container-'' @ srv_id srv)
   \<and> start_container (DockerManager_init (Inl e)) h
   \<and> stop_container (DockerManager_init (Inl e)) h
   \<and> delete_container (DockerManager_init (Inl e)) h
   \<and> get_container_stats (DockerManager_init (Inl e)) h = Some mock_stats
   \<and> map_of mock_stats ''cpu_percent'' = Some 25"
  by (simp add: DockerManager_init_def create_container_def start_container_def
      stop_container_def delete_container_def get_container_stats_def mock_stats_def)

section \<open>Sampler and the mock stats mapping\<close>




section \<open>Replace-in-place update\<close>

lemma real_manager_simps:
  "client real_manager = Some example_client" "available real_manager"
  by (simp_all add: real_manager_def DockerManager_init_def)

lemma create_real: "create_container real_manager srv = Inr ''new-container''"
  by (simp add: create_container_def real_manager_simps create_container_real_def
      example_client_def Let_def)

text \<open>
  C1 at a concrete input: the server \<open>s1\<close> is running on \<open>old-container\<close>, the runtime gives the
  recreated container the id \<open>new-container\<close>, and the replace sequence succeeds. The server
  returned and persisted by \<open>update_server\<close> still has the handle \<open>old-container\<close>.
\<close>

theorem update_server_keeps_old_handle:
  "create_container real_manager updated_server = Inr ''new-container''
   \<and> update_server real_manager example_env ''alice'' ''s1'' example_update running_db
       = (Inr updated_server, running_db\<lparr>servers := [updated_server]\<rparr>)
   \<and> container_id updated_server = Some ''old-container''"
proof -
  have u: "update_container_resources real_manager ''old-container'' srv" for srv
    by (simp add: update_container_resources_def create_real)
  have b: "update_server real_manager example_env ''alice'' ''s1'' example_update running_db
       = (Inr updated_server, running_db\<lparr>servers := [updated_server]\<rparr>)"
    by (simp add: update_server_def Let_def running_db_def find_one_def example_server_def
        update_is_empty_def update_invalid_field_def touches_resources_def example_update_def
        truthy_def u updated_server_def apply_update_def example_env_def)
  show ?thesis using b by (simp add: create_real updated_server_def example_server_def)
qed

section \<open>Invoice generation without servers\<close>

text \<open>
  C7 on the code: for a valid period with no invoice yet and a caller who owns no server,
  nothing is persisted, and the caller receives status 500; the 400 raised for the missing
  servers is only the cause named inside its detail.
\<close>

theorem no_servers_rejection_is_500:
  assumes "req_period_start req < req_period_end req"
    and "find_one (\<lambda>i. user_id i = uid \<and> period_start i = req_period_start req
                            \<and> period_end i = req_period_end req) (invoices d) = None"
    and "filter (\<lambda>s. srv_user_id s = uid) (servers d) = []"
  shows "generate_invoice st ev uid req d =
     (Inl (HTTPException 500 (DetailStr ''Failed to generate invoice: ''
        (HTTPException 400 (Detail ''No servers found for user'')))), d)"
  using assms by (simp add: generate_invoice_def)

theorem no_servers_rejection_is_500_witness:
  "req_period_start \<lparr>req_period_start = 0, req_period_end = 3600000000\<rparr>
     < req_period_end \<lparr>req_period_start = 0, req_period_end = 3600000000\<rparr>
   \<and> generate_invoice default_settings example_env ''alice''
        \<lparr>req_period_start = 0, req_period_end = 3600000000\<rparr> empty_db =
     (Inl (HTTPException 500 (DetailStr ''Failed to generate invoice: ''
        (HTTPException 400 (Detail ''No servers found for user'')))), empty_db)"
  using no_servers_rejection_is_500 [of "\<lparr>req_period_start = 0, req_period_end = 3600000000\<rparr>"
      "''alice''" empty_db default_settings example_env]
  by (simp add: empty_db_def find_one_def)

section \<open>Paying an invoice\<close>

lemma find_update_one_invoice:
  assumes "find_one (\<lambda>i. inv_id i = iid \<and> user_id i = uid) xs = Some ivc"
    and "distinct (map inv_id xs)"
  shows "find_one (\<lambda>i. inv_id i = iid \<and> user_id i = uid)
           (update_one (\<lambda>i. inv_id i = iid) (\<lambda>i. i\<lparr>status := PAID\<rparr>) xs)
         = Some (ivc\<lparr>status := PAID\<rparr>)"
  using assms
proof (induction xs)
  case Nil
  then show ?case by (simp add: find_one_def)
next
  case (Cons x xs)
  show ?case
  proof (cases "inv_id x = iid")
    case True
    show ?thesis
    proof (cases "user_id x = uid")
      case True
      with \<open>inv_id x = iid\<close> Cons.prems show ?thesis by (simp add: find_one_def)
    next
      case False
      with \<open>inv_id x = iid\<close> Cons.prems have "find (\<lambda>i. inv_id i = iid \<and> user_id i = uid) xs = Some ivc"
        by (simp add: find_one_def)
      then have "ivc \<in> set xs" "inv_id ivc = iid"
        by (auto simp: find_Some_iff)
      then have "iid \<in> inv_id ` set xs" by blast
      with \<open>inv_id x = iid\<close> Cons.prems(2) show ?thesis by simp
    qed
  next
    case False
    with Cons show ?thesis by (simp add: find_one_def)
  qed
qed

text \<open>
  C4 as stated fails: the status update of \<open>pay_invoice\<close> selects the invoice by id alone.
  In a store where an invoice of \<open>bob\<close> carries the id \<open>i1\<close> of \<open>alice\<close>'s draft invoice and
  comes first, \<open>alice\<close> paying \<open>i1\<close> gets a transaction, but her invoice stays Draft; paying
  again is not rejected and adds a second transaction.
\<close>

theorem double_payment_counterexample:
  "find_one (\<lambda>i. inv_id i = ''i1'' \<and> user_id i = ''alice'') (invoices shared_id_db)
     = Some draft_invoice
   \<and> status draft_invoice = DRAFT
   \<and> fst (pay_invoice example_env ''alice'' ''i1'' CREDIT_CARD shared_id_db)
       = Inr \<lparr>txn_id = ''u-1'', invoice_id = ''i1'', txn_amount = 1 / 100,
              txn_method = CREDIT_CARD, txn_ts = 7200000000\<rparr>
   \<and> find_one (\<lambda>i. inv_id i = ''i1'' \<and> user_id i = ''alice'')
         (invoices (snd (pay_invoice example_env ''alice'' ''i1'' CREDIT_CARD shared_id_db)))
       = Some draft_invoice
   \<and> fst (pay_invoice example_env ''alice'' ''i1'' PAYPAL
            (snd (pay_invoice example_env ''alice'' ''i1'' CREDIT_CARD shared_id_db)))
       = Inr \<lparr>txn_id = ''u-1'', invoice_id = ''i1'', txn_amount = 1 / 100,
              txn_method = PAYPAL, txn_ts = 7200000000\<rparr>
   \<and> transactions (snd (pay_invoice example_env ''alice'' ''i1'' PAYPAL
            (snd (pay_invoice example_env ''alice'' ''i1'' CREDIT_CARD shared_id_db))))
       = [\<lparr>txn_id = ''u-1'', invoice_id = ''i1'', txn_amount = 1 / 100,
              txn_method = CREDIT_CARD, txn_ts = 7200000000\<rparr>,
          \<lparr>txn_id = ''u-1'', invoice_id = ''i1'', txn_amount = 1 / 100,
              txn_method = PAYPAL, txn_ts = 7200000000\<rparr>]"
  by (simp add: pay_invoice_def shared_id_db_def find_one_def bob_invoice_def draft_invoice_def
      example_env_def insert_one_def Let_def)

text \<open>
  C4, amended: let the caller own the invoice \<open>iid\<close>, invoice ids being unique in the store.
  If the invoice is not Paid, paying returns a transaction for the invoice's current total,
  appends exactly that transaction, flips the invoice to Paid, and a further payment attempt
  on the resulting store is rejected with 400 and changes nothing. If the invoice is Paid,
  the attempt is rejected with 400 and the store, so also its transactions, is unchanged.
\<close>

theorem pay_invoice_once:
  assumes "find_one (\<lambda>i. inv_id i = iid \<and> user_id i = uid) (invoices d) = Some ivc"
    and "distinct (map inv_id (invoices d))"
  shows "(status ivc \<noteq> PAID \<longrightarrow>
            fst (pay_invoice ev uid iid m d)
              = Inr \<lparr>txn_id = new_uuid ev, invoice_id = iid, txn_amount = total ivc,
                     txn_method = m, txn_ts = utcnow ev\<rparr>
            \<and> transactions (snd (pay_invoice ev uid iid m d))
              = transactions d @ [\<lparr>txn_id = new_uuid ev, invoice_id = iid, txn_amount = total ivc,
                     txn_method = m, txn_ts = utcnow ev\<rparr>]
            \<and> find_one (\<lambda>i. inv_id i = iid \<and> user_id i = uid)
                 (invoices (snd (pay_invoice ev uid iid m d))) = Some (ivc\<lparr>status := PAID\<rparr>)
            \<and> pay_invoice ev' uid iid m' (snd (pay_invoice ev uid iid m d))
              = (Inl (HTTPException 400 (Detail ''Invoice is already paid'')),
                 snd (pay_invoice ev uid iid m d)))
       \<and> (status ivc = PAID \<longrightarrow>
            pay_invoice ev uid iid m d
              = (Inl (HTTPException 400 (Detail ''Invoice is already paid'')), d))"
proof (intro conjI impI)
  assume np: "status ivc \<noteq> PAID"
  let ?txn = "\<lparr>txn_id = new_uuid ev, invoice_id = iid, txn_amount = total ivc,
                     txn_method = m, txn_ts = utcnow ev\<rparr>"
  let ?d' = "d\<lparr>transactions := insert_one ?txn (transactions d),
               invoices := update_one (\<lambda>i. inv_id i = iid) (\<lambda>i. i\<lparr>status := PAID\<rparr>) (invoices d)\<rparr>"
  have p: "pay_invoice ev uid iid m d = (Inr ?txn, ?d')"
    using assms(1) np by (simp add: pay_invoice_def Let_def)
  show "fst (pay_invoice ev uid iid m d) = Inr ?txn" by (simp add: p)
  show "transactions (snd (pay_invoice ev uid iid m d)) = transactions d @ [?txn]"
    by (simp add: p insert_one_def)
  note f = find_update_one_invoice [OF assms]
  then show "find_one (\<lambda>i. inv_id i = iid \<and> user_id i = uid)
                 (invoices (snd (pay_invoice ev uid iid m d))) = Some (ivc\<lparr>status := PAID\<rparr>)"
    by (simp add: p)
  show "pay_invoice ev' uid iid m' (snd (pay_invoice ev uid iid m d))
              = (Inl (HTTPException 400 (Detail ''Invoice is already paid'')),
                 snd (pay_invoice ev uid iid m d))"
    unfolding p snd_conv by (subst pay_invoice_def) (simp add: f)
next
  assume "status ivc = PAID"
  then show "pay_invoice ev uid iid m d
              = (Inl (HTTPException 400 (Detail ''Invoice is already paid'')), d)"
    using assms(1) by (simp add: pay_invoice_def)
qed

theorem pay_invoice_once_witness:
  "find_one (\<lambda>i. inv_id i = ''i1'' \<and> user_id i = ''alice'') (invoices draft_db) = Some draft_invoice
   \<and> distinct (map inv_id (invoices draft_db))
   \<and> status draft_invoice \<noteq> PAID
   \<and> fst (pay_invoice example_env ''alice'' ''i1'' CREDIT_CARD draft_db)
       = Inr \<lparr>txn_id = ''u-1'', invoice_id = ''i1'', txn_amount = 1 / 100,
              txn_method = CREDIT_CARD, txn_ts = 7200000000\<rparr>
   \<and> transactions (snd (pay_invoice example_env ''alice'' ''i1'' CREDIT_CARD draft_db))
       = [\<lparr>txn_id = ''u-1'', invoice_id = ''i1'', txn_amount = 1 / 100,
              txn_method = CREDIT_CARD, txn_ts = 7200000000\<rparr>]
   \<and> pay_invoice example_env ''alice'' ''i1'' PAYPAL
        (snd (pay_invoice example_env ''alice'' ''i1'' CREDIT_CARD draft_db))
       = (Inl (HTTPException 400 (Detail ''Invoice is already paid'')),
          snd (pay_invoice example_env ''alice'' ''i1'' CREDIT_CARD draft_db))
   \<and> pay_invoice example_env ''alice'' ''i1'' CREDIT_CARD paid_db
       = (Inl (HTTPException 400 (Detail ''Invoice is already paid'')), paid_db)"
proof -
  have f1: "find_one (\<lambda>i. inv_id i = ''i1'' \<and> user_id i = ''alice'') (invoices draft_db)
      = Some draft_invoice"
    by (simp add: draft_db_def find_one_def draft_invoice_def)
  have d1: "distinct (map inv_id (invoices draft_db))"
    by (simp add: draft_db_def)
  have f2: "find_one (\<lambda>i. inv_id i = ''i1'' \<and> user_id i = ''alice'') (invoices paid_db)
      = Some (draft_invoice\<lparr>status := PAID\<rparr>)"
    by (simp add: paid_db_def find_one_def draft_invoice_def)
  have d2: "distinct (map inv_id (invoices paid_db))"
    by (simp add: paid_db_def)
  have s1: "status draft_invoice \<noteq> PAID" by (simp add: draft_invoice_def)
  have t1: "total draft_invoice = 1 / 100" by (simp add: draft_invoice_def)
  have t0: "transactions draft_db = []" by (simp add: draft_db_def)
  from pay_invoice_once [OF f1 d1, of example_env CREDIT_CARD example_env PAYPAL]
    pay_invoice_once [OF f2 d2, of example_env CREDIT_CARD] f1 d1 s1 t1 t0
  show ?thesis by (simp add: example_env_def)
qed

section \<open>Usage aggregation\<close>

lemma length_filter_sort_key: "length (filter P (sort_key f xs)) = length (filter P xs)"
proof -
  have "size (filter_mset P (mset (sort_key f xs))) = size (filter_mset P (mset xs))"
    by simp
  then show ?thesis
    by (simp only: mset_filter [symmetric] size_mset)
qed

lemma sum_list_map_sort_key:
  fixes g :: "'a \<Rightarrow> nat"
  shows "sum_list (map g (sort_key f ks)) = sum_list (map g ks)"
proof -
  have "mset (map g (sort_key f ks)) = mset (map g ks)" by simp
  then have "sum_mset (mset (map g (sort_key f ks))) = sum_mset (mset (map g ks))"
    by (rule arg_cong)
  then show ?thesis by (simp only: sum_mset_sum_list)
qed

lemma sum_length_filter_keys:
  assumes "finite S" "f ` set xs \<subseteq> S"
  shows "(\<Sum>k\<in>S. length (filter (\<lambda>x. f x = k) xs)) = length xs"
  using assms(2)
proof (induction xs)
  case Nil
  then show ?case by simp
next
  case (Cons x xs)
  have "(\<Sum>k\<in>S. length (filter (\<lambda>y. f y = k) (x # xs)))
      = (\<Sum>k\<in>S. (if f x = k then 1 else 0) + length (filter (\<lambda>y. f y = k) xs))"
    by (rule sum.cong) auto
  also have "\<dots> = (\<Sum>k\<in>S. if f x = k then 1 else 0) + (\<Sum>k\<in>S. length (filter (\<lambda>y. f y = k) xs))"
    by (simp add: sum.distrib)
  also have "(\<Sum>k\<in>S. if f x = k then 1 else 0) = (1::nat)"
    using assms(1) Cons.prems by (simp add: sum.delta')
  finally show ?case using Cons by simp
qed

lemma sum_list_group_counts:
  "sum_list (map (\<lambda>k. length (filter (\<lambda>x. f x = k) xs)) (remdups (map f xs))) = length xs"
proof -
  have "sum_list (map (\<lambda>k. length (filter (\<lambda>x. f x = k) xs)) (remdups (map f xs)))
      = (\<Sum>k\<in>set (remdups (map f xs)). length (filter (\<lambda>x. f x = k) xs))"
    by (rule sum_list_distinct_conv_sum_set) simp
  also have "\<dots> = length xs"
    by (rule sum_length_filter_keys) auto
  finally show ?thesis .
qed

lemma row_count_aggregate:
  "sum_list (map row_count (aggregate so interval sid from_d to_d xs))
     = length (filter (\<lambda>s. server_id s = sid \<and> from_d \<le> ts s \<and> ts s \<le> to_d) xs)"
proof (cases "interval = ''1m''")
  case True
  then show ?thesis
    by (simp add: aggregate_def sort_stage_def match_stage_def comp_def sum_list_map_sort_key
        sum_list_triv)
next
  case False
  let ?m = "sort_stage (match_stage sid from_d to_d xs)"
  let ?f = "\<lambda>s. date_trunc (bin_size interval) (ts s)"
  have "map row_count (map (BucketRow \<circ> project_stage) (group_stage so (bin_size interval) ?m))
      = map (\<lambda>k. length (filter (\<lambda>s. ?f s = k) ?m)) (sort_key so (remdups (map ?f ?m)))"
    by (simp add: group_stage_def comp_def project_stage_def group_doc_def Let_def)
  then have "sum_list (map row_count (aggregate so interval sid from_d to_d xs)) = length ?m"
    using False
    by (simp add: aggregate_def Let_def sum_list_map_sort_key sum_list_group_counts del: map_map)
  then show ?thesis by (simp add: sort_stage_def match_stage_def)
qed

lemma match_stage_in_range: "match_stage sid from_d to_d xs = filter (in_range sid from_d to_d) xs"
  by (simp add: match_stage_def in_range_def [abs_def])

lemma avg_filter_sort_key:
  "avg (map g (filter P (sort_key f xs))) = avg (map g (filter P xs))"
proof -
  have m: "mset (map g (filter P (sort_key f xs))) = mset (map g (filter P xs))" by simp
  then have "sum_mset (mset (map g (filter P (sort_key f xs)))) = sum_mset (mset (map g (filter P xs)))"
    by (rule arg_cong)
  then have s: "sum_list (map g (filter P (sort_key f xs))) = sum_list (map g (filter P xs))"
    by (simp only: sum_mset_sum_list)
  have "length (map g (filter P (sort_key f xs))) = length (map g (filter P xs))"
    by (simp add: length_filter_sort_key)
  with s show ?thesis unfolding avg_def by simp
qed

lemma project_group_doc:
  "project_stage (group_doc bin (sort_stage (match_stage sid from_d to_d xs)) h)
     = spec_bucket_row bin (filter (in_range sid from_d to_d) xs) h"
  by (simp add: project_stage_def group_doc_def spec_bucket_row_def Let_def sort_stage_def
      match_stage_in_range avg_filter_sort_key length_filter_sort_key)
    (simp add: avg_def)

lemma set_group_keys:
  "set (sort_key so (remdups (map (\<lambda>s. date_trunc bin (ts s))
      (sort_stage (match_stage sid from_d to_d xs)))))
   = (\<lambda>s. date_trunc bin (ts s)) ` {s \<in> set xs. in_range sid from_d to_d s}"
  by (auto simp: sort_stage_def match_stage_in_range)

lemma bucket_rows:
  assumes "interval \<noteq> ''1m''"
  shows "aggregate so interval sid from_d to_d xs
    = map (\<lambda>h. BucketRow (spec_bucket_row (bin_size interval) (filter (in_range sid from_d to_d) xs) h))
        (sort_key so (remdups (map (\<lambda>s. date_trunc (bin_size interval) (ts s))
            (sort_stage (match_stage sid from_d to_d xs)))))"
  using assms by (simp add: aggregate_def Let_def group_stage_def project_group_doc)

lemma spec_bucket_row_simps:
  "b_ts (spec_bucket_row bin xs h) = h"
  "sample_count (spec_bucket_row bin xs h) = length (filter (\<lambda>s. date_trunc bin (ts s) = h) xs)"
  by (simp_all add: spec_bucket_row_def Let_def)

lemmas eval_usage =
  get_server_usage_def aggregate_def sort_stage_def match_stage_def group_stage_def group_doc_def
  project_stage_def bin_size_def date_trunc_def avg_def py_round_def round_half_even_def
  find_one_def Let_def example_server_def

text \<open>
  C5 as stated fails: with the range \<open>[0, 7200000000]\<close> a sample whose \<open>ts\<close> equals the end
  bound is returned at interval \<open>1m\<close> and counted in the bucket at interval \<open>1h\<close>.
\<close>

theorem usage_end_bound_counterexample:
  "ts boundary_sample = 7200000000
   \<and> get_server_usage (\<lambda>t. t) example_env ''alice'' ''s1'' (Some 0) (Some 7200000000) ''1m''
        boundary_db
      = Inr \<lparr>r_server_id = ''s1'', from_date = 0, to_date = 7200000000, r_interval = ''1m'',
             data = [RawRow boundary_sample]\<rparr>
   \<and> get_server_usage (\<lambda>t. t) example_env ''alice'' ''s1'' (Some 0) (Some 7200000000) ''1h''
        boundary_db
      = Inr \<lparr>r_server_id = ''s1'', from_date = 0, to_date = 7200000000, r_interval = ''1h'',
             data = [BucketRow \<lparr>b_ts = 7200000000, b_cpu_pct = 50, b_ram_mib = 512,
                                b_disk_gib = 1, sample_count = 1\<rparr>]\<rparr>"
  by (simp add: eval_usage boundary_db_def boundary_sample_def)

text \<open>
  C5, amended: the range of a usage query is closed. For an owned server and a valid
  interval the query succeeds; the rows stand for exactly the samples of the server with
  \<open>from \<le> ts \<le> to\<close>: their counts add up to the number of those samples, at interval \<open>1m\<close>
  the raw rows are exactly those samples, a bucket row counts exactly those samples whose
  truncated \<open>ts\<close> is the bucket start, and every such sample is covered by a row.
\<close>

theorem usage_range_is_closed:
  assumes "find_one (\<lambda>s. srv_id s = sid \<and> srv_user_id s = uid) (servers d) = Some srv"
    and "interval \<in> set [''1m'', ''5m'', ''1h'', ''1d'']"
  shows "\<exists>r. get_server_usage so ev uid sid (Some from_d) (Some to_d) interval d = Inr r
    \<and> sum_list (map row_count (data r))
        = length (filter (in_range sid from_d to_d) (usage_samples d))
    \<and> (\<forall>s. RawRow s \<in> set (data r) \<longleftrightarrow>
          interval = ''1m'' \<and> s \<in> set (usage_samples d) \<and> in_range sid from_d to_d s)
    \<and> (\<forall>b. BucketRow b \<in> set (data r) \<longrightarrow>
          sample_count b = length (filter (\<lambda>s. in_range sid from_d to_d s
             \<and> date_trunc (bin_size interval) (ts s) = b_ts b) (usage_samples d)))
    \<and> (\<forall>s \<in> set (usage_samples d). in_range sid from_d to_d s \<longrightarrow>
          RawRow s \<in> set (data r)
          \<or> (\<exists>b. BucketRow b \<in> set (data r) \<and> b_ts b = date_trunc (bin_size interval) (ts s)))"
proof -
  let ?xs = "usage_samples d"
  let ?rows = "aggregate so interval sid from_d to_d ?xs"
  let ?r = "\<lparr>r_server_id = sid, from_date = from_d, to_date = to_d, r_interval = interval,
             data = ?rows\<rparr>"
  have res: "get_server_usage so ev uid sid (Some from_d) (Some to_d) interval d = Inr ?r"
    using assms by (simp add: get_server_usage_def Let_def)
  have cnt: "sum_list (map row_count ?rows) = length (filter (in_range sid from_d to_d) ?xs)"
    by (simp add: row_count_aggregate in_range_def [abs_def])
  have raw: "RawRow s \<in> set ?rows \<longleftrightarrow>
          interval = ''1m'' \<and> s \<in> set ?xs \<and> in_range sid from_d to_d s" for s
  proof (cases "interval = ''1m''")
    case True
    then show ?thesis
      by (auto simp: aggregate_def sort_stage_def match_stage_in_range)
  next
    case False
    then show ?thesis by (auto simp: bucket_rows)
  qed
  have bucket: "sample_count b = length (filter (\<lambda>s. in_range sid from_d to_d s
             \<and> date_trunc (bin_size interval) (ts s) = b_ts b) ?xs)"
    if "BucketRow b \<in> set ?rows" for b
  proof (cases "interval = ''1m''")
    case True
    with that show ?thesis by (auto simp: aggregate_def)
  next
    case False
    with that obtain h where
      "b = spec_bucket_row (bin_size interval) (filter (in_range sid from_d to_d) ?xs) h"
      by (auto simp: bucket_rows)
    then show ?thesis by (simp add: spec_bucket_row_simps conj_commute)
  qed
  have present: "RawRow s \<in> set ?rows
          \<or> (\<exists>b. BucketRow b \<in> set ?rows \<and> b_ts b = date_trunc (bin_size interval) (ts s))"
    if "s \<in> set ?xs" "in_range sid from_d to_d s" for s
  proof (cases "interval = ''1m''")
    case True
    with that raw show ?thesis by simp
  next
    case False
    let ?h = "date_trunc (bin_size interval) (ts s)"
    have "?h \<in> set (sort_key so (remdups (map (\<lambda>s. date_trunc (bin_size interval) (ts s))
            (sort_stage (match_stage sid from_d to_d ?xs)))))"
      unfolding set_group_keys using that by blast
    then have "BucketRow (spec_bucket_row (bin_size interval) (filter (in_range sid from_d to_d) ?xs) ?h)
        \<in> set ?rows"
      unfolding bucket_rows [OF False] set_map by (rule imageI)
    then show ?thesis using spec_bucket_row_simps(1) by blast
  qed
  show ?thesis
    apply (rule exI [of _ ?r])
    using res cnt raw bucket present by simp
qed

theorem usage_range_is_closed_witness:
  "find_one (\<lambda>s. srv_id s = ''s1'' \<and> srv_user_id s = ''alice'') (servers boundary_db)
      = Some example_server
   \<and> ''1h'' \<in> set [''1m'', ''5m'', ''1h'', ''1d'']
   \<and> boundary_sample \<in> set (usage_samples boundary_db)
   \<and> in_range ''s1'' 0 7200000000 boundary_sample
   \<and> (\<exists>r. get_server_usage (\<lambda>t. t) example_env ''alice'' ''s1'' (Some 0) (Some 7200000000)
              ''1h'' boundary_db = Inr r
          \<and> sum_list (map row_count (data r)) = 1
          \<and> (\<exists>b. BucketRow b \<in> set (data r) \<and> b_ts b = 7200000000 \<and> sample_count b = 1))"
proof -
  have f: "find_one (\<lambda>s. srv_id s = ''s1'' \<and> srv_user_id s = ''alice'') (servers boundary_db)
      = Some example_server"
    by (simp add: boundary_db_def find_one_def example_server_def)
  have v: "''1h'' \<in> set [''1m'', ''5m'', ''1h'', ''1d'']" by simp
  have m: "boundary_sample \<in> set (usage_samples boundary_db)" by (simp add: boundary_db_def)
  have i: "in_range ''s1'' 0 7200000000 boundary_sample"
    by (simp add: in_range_def boundary_sample_def)
  have t: "date_trunc (bin_size ''1h'') (ts boundary_sample) = 7200000000"
    by (simp add: date_trunc_def bin_size_def boundary_sample_def)
  have n: "length (filter (in_range ''s1'' 0 7200000000) (usage_samples boundary_db)) = 1"
    using i by (simp add: boundary_db_def)
  have n': "length (filter (\<lambda>s. in_range ''s1'' 0 7200000000 s
             \<and> date_trunc (bin_size ''1h'') (ts s) = 7200000000) (usage_samples boundary_db)) = 1"
    using i t by (simp add: boundary_db_def)
  from usage_range_is_closed [OF f v, of "\<lambda>t. t" example_env 0 7200000000]
  obtain r where r: "get_server_usage (\<lambda>t. t) example_env ''alice'' ''s1'' (Some 0) (Some 7200000000)
              ''1h'' boundary_db = Inr r"
    and c: "sum_list (map row_count (data r))
        = length (filter (in_range ''s1'' 0 7200000000) (usage_samples boundary_db))"
    and raw: "\<And>s. RawRow s \<in> set (data r) \<longleftrightarrow>
          ''1h'' = ''1m'' \<and> s \<in> set (usage_samples boundary_db) \<and> in_range ''s1'' 0 7200000000 s"
    and bk: "\<And>b. BucketRow b \<in> set (data r) \<Longrightarrow>
          sample_count b = length (filter (\<lambda>s. in_range ''s1'' 0 7200000000 s
             \<and> date_trunc (bin_size ''1h'') (ts s) = b_ts b) (usage_samples boundary_db))"
    and pr: "\<And>s. s \<in> set (usage_samples boundary_db) \<Longrightarrow> in_range ''s1'' 0 7200000000 s \<Longrightarrow>
          RawRow s \<in> set (data r)
          \<or> (\<exists>b. BucketRow b \<in> set (data r) \<and> b_ts b = date_trunc (bin_size ''1h'') (ts s))"
    by blast
  from pr [OF m i] raw obtain b where b: "BucketRow b \<in> set (data r)" "b_ts b = 7200000000"
    unfolding t by auto
  from bk [OF b(1)] have "sample_count b = 1" unfolding b(2) n' .
  with b r c n f v m i show ?thesis by auto
qed

text \<open>
  C6 as stated fails: three samples with \<open>cpu_pct\<close> 0, 0 and 1 in one hour give the row value
  0.33, which is not their mean 1/3; and the order of the two rows is the order in which the
  store emits the groups, which need not be ascending.
\<close>

theorem hourly_mean_counterexample:
  "get_server_usage (\<lambda>t. t) example_env ''alice'' ''s1'' (Some 0) (Some 7199999999) ''1h'' hour_db
      = Inr \<lparr>r_server_id = ''s1'', from_date = 0, to_date = 7199999999, r_interval = ''1h'',
             data = [BucketRow \<lparr>b_ts = 0, b_cpu_pct = 33 / 100, b_ram_mib = 100,
                                b_disk_gib = 1, sample_count = 3\<rparr>,
                     BucketRow \<lparr>b_ts = 3600000000, b_cpu_pct = 50, b_ram_mib = 100,
                                b_disk_gib = 1, sample_count = 1\<rparr>]\<rparr>
   \<and> (0 + 0 + 1) / 3 \<noteq> (33 / 100 :: real)
   \<and> get_server_usage (\<lambda>t. - t) example_env ''alice'' ''s1'' (Some 0) (Some 7199999999) ''1h'' hour_db
      = Inr \<lparr>r_server_id = ''s1'', from_date = 0, to_date = 7199999999, r_interval = ''1h'',
             data = [BucketRow \<lparr>b_ts = 3600000000, b_cpu_pct = 50, b_ram_mib = 100,
                                b_disk_gib = 1, sample_count = 1\<rparr>,
                     BucketRow \<lparr>b_ts = 0, b_cpu_pct = 33 / 100, b_ram_mib = 100,
                                b_disk_gib = 1, sample_count = 3\<rparr>]\<rparr>"
  by (simp add: eval_usage hour_db_def hour_samples_def)

text \<open>
  C6, amended: when the samples selected by the query fall into exactly two distinct hour
  buckets, aggregation at interval \<open>1h\<close> returns exactly two rows, one per bucket, each with
  the bucket start, the means of \<open>cpu_pct\<close>, \<open>ram_mib\<close> and \<open>disk_gib\<close> over the samples of that
  bucket rounded to 2 decimals, and the number of those samples.
\<close>

theorem hourly_two_buckets:
  assumes "find_one (\<lambda>s. srv_id s = sid \<and> srv_user_id s = uid) (servers d) = Some srv"
    and "(\<lambda>s. date_trunc 3600000000 (ts s))
           ` {s \<in> set (usage_samples d). in_range sid from_d to_d s} = {h1, h2}"
    and "h1 \<noteq> h2"
  shows "\<exists>r. get_server_usage so ev uid sid (Some from_d) (Some to_d) ''1h'' d = Inr r
    \<and> length (data r) = 2
    \<and> set (data r) =
        {BucketRow (spec_bucket_row 3600000000
                      (filter (in_range sid from_d to_d) (usage_samples d)) h1),
         BucketRow (spec_bucket_row 3600000000
                      (filter (in_range sid from_d to_d) (usage_samples d)) h2)}"
proof -
  let ?xs = "usage_samples d"
  let ?ks = "sort_key so (remdups (map (\<lambda>s. date_trunc (bin_size ''1h'') (ts s))
            (sort_stage (match_stage sid from_d to_d ?xs))))"
  let ?F = "\<lambda>h. BucketRow (spec_bucket_row (bin_size ''1h'') (filter (in_range sid from_d to_d) ?xs) h)"
  let ?r = "\<lparr>r_server_id = sid, from_date = from_d, to_date = to_d, r_interval = ''1h'',
             data = map ?F ?ks\<rparr>"
  have b: "bin_size ''1h'' = 3600000000" by (simp add: bin_size_def)
  have rows: "aggregate so ''1h'' sid from_d to_d ?xs = map ?F ?ks"
    by (rule bucket_rows) simp
  have res: "get_server_usage so ev uid sid (Some from_d) (Some to_d) ''1h'' d = Inr ?r"
    using assms(1) by (simp add: get_server_usage_def Let_def rows)
  have ks: "set ?ks = {h1, h2}"
    unfolding set_group_keys b by (rule assms(2))
  have "distinct ?ks" by (simp del: set_sort)
  then have "length ?ks = card (set ?ks)" by (rule distinct_card [symmetric])
  also have "\<dots> = 2" unfolding ks using assms(3) by simp
  finally have len: "length (data ?r) = 2" by simp
  have "set (data ?r) = ?F ` set ?ks" by simp
  also have "\<dots> = {?F h1, ?F h2}" unfolding ks by simp
  finally have st: "set (data ?r) = {?F h1, ?F h2}" .
  show ?thesis
    apply (rule exI [of _ ?r])
    using res len st unfolding b by simp
qed

theorem hourly_two_buckets_witness:
  "find_one (\<lambda>s. srv_id s = ''s1'' \<and> srv_user_id s = ''alice'') (servers hour_db)
      = Some example_server
   \<and> (\<lambda>s. date_trunc 3600000000 (ts s))
           ` {s \<in> set (usage_samples hour_db). in_range ''s1'' 0 7199999999 s} = {0, 3600000000}
   \<and> (0::int) \<noteq> 3600000000
   \<and> (\<exists>r. get_server_usage (\<lambda>t. t) example_env ''alice'' ''s1'' (Some 0) (Some 7199999999)
              ''1h'' hour_db = Inr r
          \<and> length (data r) = 2
          \<and> set (data r) =
              {BucketRow (spec_bucket_row 3600000000
                  (filter (in_range ''s1'' 0 7199999999) (usage_samples hour_db)) 0),
               BucketRow (spec_bucket_row 3600000000
                  (filter (in_range ''s1'' 0 7199999999) (usage_samples hour_db)) 3600000000)})"
proof -
  have f: "find_one (\<lambda>s. srv_id s = ''s1'' \<and> srv_user_id s = ''alice'') (servers hour_db)
      = Some example_server"
    by (simp add: hour_db_def find_one_def example_server_def)
  have "{s \<in> set (usage_samples hour_db). in_range ''s1'' 0 7199999999 s} = set hour_samples"
    by (auto simp: hour_db_def hour_samples_def in_range_def)
  then have k: "(\<lambda>s. date_trunc 3600000000 (ts s))
           ` {s \<in> set (usage_samples hour_db). in_range ''s1'' 0 7199999999 s} = {0, 3600000000}"
    by (simp add: hour_samples_def date_trunc_def)
  have n: "(0::int) \<noteq> 3600000000" by simp
  from hourly_two_buckets [OF f k n, of "\<lambda>t. t" example_env] f k n
  show ?thesis by blast
qed

section \<open>Invoice generation\<close>




lemma server_line_items_zero: "server_line_items st (0, 0, 0) = []"
  by (simp add: server_line_items_def)

lemma fold_bill_server_items:
  "fst (fold (bill_server st d p_start p_end) srvs acc) =
     fst acc @ concat (map (\<lambda>srv. map fst (server_line_items st
        (resource_hours srv (samples_in_period d (srv_id srv) p_start p_end)))) srvs)"
proof (induction srvs arbitrary: acc)
  case Nil
  then show ?case by simp
next
  case (Cons srv srvs)
  have "fst (bill_server st d p_start p_end srv acc) =
      fst acc @ map fst (server_line_items st
        (resource_hours srv (samples_in_period d (srv_id srv) p_start p_end)))"
  proof (cases "samples_in_period d (srv_id srv) p_start p_end = []")
    case True
    then show ?thesis
      by (simp add: bill_server_def resource_hours_def server_line_items_zero)
  next
    case False
    then show ?thesis
      by (simp add: bill_server_def Let_def)
  qed
  then show ?case by (simp add: Cons.IH)
qed

lemmas eval_billing =
  generate_invoice_def find_one_def Let_def bill_server_def samples_in_period_def
  resource_hours_def hours_step_def total_seconds_def server_line_items_def mk_line_item_def
  py_round_def round_half_even_def default_settings_def insert_one_def example_env_def
  example_server_def


text \<open>
  C8 as stated fails: for two samples 599.976 s apart with \<open>ram_mib = 1024\<close> the RAM hours are
  0.16666; the line item has quantity 0.1667 and amount 0.0002, the rounding of
  0.16666 * 0.0015, whereas the rounded quantity times the rate, 0.1667 * 0.0015, rounds to
  0.0003.
\<close>

theorem line_item_amount_counterexample:
  "fst (generate_invoice default_settings example_env ''alice'' billing_request rounding_db)
     = Inr rounding_invoice
   \<and> hd (line_items rounding_invoice)
       = \<lparr>kind = ''RAM'', unit = ''gib-hour'', quantity = 1667 / 10000, rate = 15 / 10000,
          amount = 2 / 10000\<rparr>
   \<and> py_round (1667 / 10000 * (15 / 10000)) 4 = 3 / 10000
   \<and> (2 / 10000 :: real) \<noteq> 3 / 10000"
proof -
  have "generate_invoice default_settings example_env ''alice'' billing_request rounding_db
       = (Inr rounding_invoice, rounding_db\<lparr>invoices := [rounding_invoice]\<rparr>)"
    by (simp add: eval_billing billing_request_def rounding_db_def rounding_samples_def
        rounding_invoice_def upt_conv_Cons)
  moreover have "py_round (1667 / 10000 * (15 / 10000)) 4 = 3 / 10000"
    by (simp add: py_round_def round_half_even_def Let_def)
  ultimately show ?thesis by (simp add: rounding_invoice_def)
qed

lemma generate_invoice_items:
  assumes "generate_invoice st ev uid req d = (Inr ivc, d')"
  shows "line_items ivc
     = concat (map (\<lambda>srv. map fst (server_line_items st
           (resource_hours srv (samples_in_period d (srv_id srv)
              (req_period_start req) (req_period_end req)))))
         (filter (\<lambda>s. srv_user_id s = uid) (servers d)))"
  using assms
  by (auto simp: generate_invoice_def Let_def fold_bill_server_items
      split: if_splits option.splits)

text \<open>
  C8, amended: every line item of a generated invoice belongs to a server of the caller and
  one of its three positive resource-hour totals; its quantity is that total rounded to 4
  decimals, and its amount is the unrounded total multiplied by the rate, rounded to 4
  decimals.
\<close>

theorem line_item_quantity_and_amount:
  assumes "generate_invoice st ev uid req d = (Inr ivc, d')"
    and "li \<in> set (line_items ivc)"
  shows "\<exists>srv \<in> set (servers d). srv_user_id srv = uid \<and>
     (case resource_hours srv
             (samples_in_period d (srv_id srv) (req_period_start req) (req_period_end req)) of
        (vcpu_hours, ram_hours, disk_hours) \<Rightarrow>
          (0 < vcpu_hours \<and>
             li = \<lparr>kind = ''vCPU'', unit = ''core-hour'', quantity = py_round vcpu_hours 4,
                   rate = vcpu_rate_per_core_hour st,
                   amount = py_round (vcpu_hours * vcpu_rate_per_core_hour st) 4\<rparr>)
          \<or> (0 < ram_hours \<and>
             li = \<lparr>kind = ''RAM'', unit = ''gib-hour'', quantity = py_round ram_hours 4,
                   rate = ram_rate_per_gib_hour st,
                   amount = py_round (ram_hours * ram_rate_per_gib_hour st) 4\<rparr>)
          \<or> (0 < disk_hours \<and>
             li = \<lparr>kind = ''Disk'', unit = ''gib-hour'', quantity = py_round disk_hours 4,
                   rate = disk_rate_per_gib_hour st,
                   amount = py_round (disk_hours * disk_rate_per_gib_hour st) 4\<rparr>))"
proof -
  from assms(2) obtain srv where srv: "srv \<in> set (servers d)" "srv_user_id srv = uid"
    and li: "li \<in> fst ` set (server_line_items st (resource_hours srv
        (samples_in_period d (srv_id srv) (req_period_start req) (req_period_end req))))"
    unfolding generate_invoice_items [OF assms(1)] by auto
  obtain v m k where h: "resource_hours srv
        (samples_in_period d (srv_id srv) (req_period_start req) (req_period_end req)) = (v, m, k)"
    by (cases "resource_hours srv
        (samples_in_period d (srv_id srv) (req_period_start req) (req_period_end req))") auto
  from li have "(0 < v \<and> li = mk_line_item ''vCPU'' ''core-hour'' v (vcpu_rate_per_core_hour st))
      \<or> (0 < m \<and> li = mk_line_item ''RAM'' ''gib-hour'' m (ram_rate_per_gib_hour st))
      \<or> (0 < k \<and> li = mk_line_item ''Disk'' ''gib-hour'' k (disk_rate_per_gib_hour st))"
    unfolding h by (auto simp: server_line_items_def split: if_splits)
  then show ?thesis
    using srv by (intro bexI [of _ srv]) (simp_all add: h mk_line_item_def)
qed

theorem line_item_quantity_and_amount_witness:
  "generate_invoice default_settings example_env ''alice'' billing_request billing_db
       = (Inr billing_invoice, billing_db\<lparr>invoices := [billing_invoice]\<rparr>)
   \<and> \<lparr>kind = ''vCPU'', unit = ''core-hour'', quantity = 1, rate = 1 / 100, amount = 1 / 100\<rparr>
       \<in> set (line_items billing_invoice)
   \<and> (\<exists>srv \<in> set (servers billing_db). srv_user_id srv = ''alice'' \<and>
     (case resource_hours srv
             (samples_in_period billing_db (srv_id srv) (req_period_start billing_request)
                (req_period_end billing_request)) of
        (vcpu_hours, ram_hours, disk_hours) \<Rightarrow>
          (0 < vcpu_hours \<and>
             \<lparr>kind = ''vCPU'', unit = ''core-hour'', quantity = 1, rate = 1 / 100, amount = 1 / 100\<rparr>
              = \<lparr>kind = ''vCPU'', unit = ''core-hour'', quantity = py_round vcpu_hours 4,
                   rate = vcpu_rate_per_core_hour default_settings,
                   amount = py_round (vcpu_hours * vcpu_rate_per_core_hour default_settings) 4\<rparr>)
          \<or> (0 < ram_hours \<and>
             \<lparr>kind = ''vCPU'', unit = ''core-hour'', quantity = 1, rate = 1 / 100, amount = 1 / 100\<rparr>
              = \<lparr>kind = ''RAM'', unit = ''gib-hour'', quantity = py_round ram_hours 4,
                   rate = ram_rate_per_gib_hour default_settings,
                   amount = py_round (ram_hours * ram_rate_per_gib_hour default_settings) 4\<rparr>)
          \<or> (0 < disk_hours \<and>
             \<lparr>kind = ''vCPU'', unit = ''core-hour'', quantity = 1, rate = 1 / 100, amount = 1 / 100\<rparr>
              = \<lparr>kind = ''Disk'', unit = ''gib-hour'', quantity = py_round disk_hours 4,
                   rate = disk_rate_per_gib_hour default_settings,
                   amount = py_round (disk_hours * disk_rate_per_gib_hour default_settings) 4\<rparr>)))"
proof -
  have g: "generate_invoice default_settings example_env ''alice'' billing_request billing_db
       = (Inr billing_invoice, billing_db\<lparr>invoices := [billing_invoice]\<rparr>)"
    by (simp add: eval_billing billing_request_def billing_db_def billing_samples_def
        billing_invoice_def upt_conv_Cons)
  have m: "\<lparr>kind = ''vCPU'', unit = ''core-hour'', quantity = 1, rate = 1 / 100, amount = 1 / 100\<rparr>
       \<in> set (line_items billing_invoice)"
    by (simp add: billing_invoice_def)
  from line_item_quantity_and_amount [OF g m] g m show ?thesis by blast
qed

section \<open>Ownership scoping\<close>

lemma find_one_filter:
  "find_one (\<lambda>x. P x \<and> Q x) (filter Q xs) = find_one (\<lambda>x. P x \<and> Q x) xs"
  by (induction xs) (auto simp: find_one_def)

lemma find_one_filter':
  "find_one (\<lambda>x. Q x \<and> P x) (filter Q xs) = find_one (\<lambda>x. Q x \<and> P x) xs"
  by (induction xs) (auto simp: find_one_def)

lemma update_one_others:
  assumes "find_one (\<lambda>x. key x = k \<and> owner x = u) xs = Some y"
    and "distinct (map key xs)"
    and "owner (f y) = u"
  shows "filter (\<lambda>x. owner x \<noteq> u) (update_one (\<lambda>x. key x = k) f xs)
       = filter (\<lambda>x. owner x \<noteq> u) xs"
  using assms(1,2)
proof (induction xs)
  case Nil
  then show ?case by simp
next
  case (Cons x xs)
  show ?case
  proof (cases "key x = k")
    case True
    show ?thesis
    proof (cases "owner x = u")
      case True
      with \<open>key x = k\<close> Cons.prems have "y = x" by (simp add: find_one_def)
      with True \<open>key x = k\<close> assms(3) show ?thesis by simp
    next
      case False
      with \<open>key x = k\<close> Cons.prems have "find (\<lambda>x. key x = k \<and> owner x = u) xs = Some y"
        by (simp add: find_one_def)
      then have "y \<in> set xs" "key y = k"
        by (auto simp: find_Some_iff)
      then have "k \<in> key ` set xs" by blast
      with \<open>key x = k\<close> Cons.prems(2) show ?thesis by simp
    qed
  next
    case False
    with Cons show ?thesis by (simp add: find_one_def)
  qed
qed

lemma delete_one_others:
  "filter (\<lambda>x. owner x \<noteq> u) (delete_one (\<lambda>x. P x \<and> owner x = u) xs)
     = filter (\<lambda>x. owner x \<noteq> u) xs"
  by (induction xs) auto

lemma found_owner:
  "find_one (\<lambda>s. srv_id s = sid \<and> srv_user_id s = uid) xs = Some srv \<Longrightarrow> srv_user_id srv = uid"
  by (auto simp: find_one_def find_Some_iff)

lemma update_one_others_servers:
  assumes "find_one (\<lambda>s. srv_id s = sid \<and> srv_user_id s = uid) (servers d) = Some y"
    and "distinct (map srv_id (servers d))"
    and "srv_user_id (f y) = uid"
  shows "others_servers uid (d\<lparr>servers := update_one (\<lambda>s. srv_id s = sid) f (servers d)\<rparr>)
       = others_servers uid d"
  unfolding others_servers_def
  using update_one_others [where key = srv_id and owner = srv_user_id and f = f, OF assms]
  by simp

lemma update_one_others_invoices:
  assumes "find_one (\<lambda>i. inv_id i = iid \<and> user_id i = uid) (invoices d) = Some y"
    and "distinct (map inv_id (invoices d))"
    and "user_id (f y) = uid"
  shows "others_invoices uid (d\<lparr>invoices := update_one (\<lambda>i. inv_id i = iid) f (invoices d)\<rparr>)
       = others_invoices uid d"
  unfolding others_invoices_def
  using update_one_others [where key = inv_id and owner = user_id and f = f, OF assms]
  by simp

lemma start_server_others:
  assumes "distinct (map srv_id (servers d))"
  shows "others_servers uid (snd (start_server dm ev uid sid d)) = others_servers uid d
    \<and> invoices (snd (start_server dm ev uid sid d)) = invoices d"
proof (cases "find_one (\<lambda>s. srv_id s = sid \<and> srv_user_id s = uid) (servers d)")
  case None
  then show ?thesis by (simp add: start_server_def)
next
  case (Some y)
  have "srv_user_id (y\<lparr>srv_status := RUNNING, updated_at := utcnow ev\<rparr>) = uid"
    using found_owner [OF Some] by simp
  note update_one_others_servers [OF Some assms, of "\<lambda>s. s\<lparr>srv_status := RUNNING, updated_at := utcnow ev\<rparr>", OF this]
  then show ?thesis by (simp add: start_server_def Some)
qed

lemma stop_server_others:
  assumes "distinct (map srv_id (servers d))"
  shows "others_servers uid (snd (stop_server dm ev uid sid d)) = others_servers uid d
    \<and> invoices (snd (stop_server dm ev uid sid d)) = invoices d"
proof (cases "find_one (\<lambda>s. srv_id s = sid \<and> srv_user_id s = uid) (servers d)")
  case None
  then show ?thesis by (simp add: stop_server_def)
next
  case (Some y)
  have "srv_user_id (y\<lparr>srv_status := STOPPED, updated_at := utcnow ev\<rparr>) = uid"
    using found_owner [OF Some] by simp
  note update_one_others_servers [OF Some assms, of "\<lambda>s. s\<lparr>srv_status := STOPPED, updated_at := utcnow ev\<rparr>", OF this]
  then show ?thesis by (simp add: stop_server_def Some)
qed

lemma update_server_others:
  assumes "distinct (map srv_id (servers d))"
  shows "others_servers uid (snd (update_server dm ev uid sid u d)) = others_servers uid d
    \<and> invoices (snd (update_server dm ev uid sid u d)) = invoices d"
proof (cases "find_one (\<lambda>s. srv_id s = sid \<and> srv_user_id s = uid) (servers d)")
  case None
  then show ?thesis by (simp add: update_server_def)
next
  case (Some y)
  let ?srv = "(apply_update u y)\<lparr>updated_at := utcnow ev\<rparr>"
  have "srv_user_id ((\<lambda>_. ?srv) y) = uid"
    using found_owner [OF Some] by (simp add: apply_update_def)
  note update_one_others_servers [OF Some assms, of "\<lambda>_. ?srv", OF this]
  then show ?thesis
    by (simp add: update_server_def Some Let_def split: option.splits)
qed

lemma delete_server_others:
  "others_servers uid (snd (delete_server dm uid sid d)) = others_servers uid d
    \<and> invoices (snd (delete_server dm uid sid d)) = invoices d"
  by (auto simp: delete_server_def others_servers_def delete_one_others Let_def
      split: option.splits)

lemma create_server_others:
  "others_servers uid (snd (create_server dm ev uid sc d)) = others_servers uid d
    \<and> invoices (snd (create_server dm ev uid sc d)) = invoices d"
  by (auto simp: create_server_def others_servers_def insert_one_def Let_def
      split: sum.splits)

lemma generate_invoice_others:
  "servers (snd (generate_invoice st ev uid req d)) = servers d
    \<and> others_invoices uid (snd (generate_invoice st ev uid req d)) = others_invoices uid d"
  by (auto simp: generate_invoice_def others_invoices_def insert_one_def Let_def
      split: option.splits)

lemma pay_invoice_others:
  assumes "distinct (map inv_id (invoices d))"
  shows "servers (snd (pay_invoice ev uid iid m d)) = servers d
    \<and> others_invoices uid (snd (pay_invoice ev uid iid m d)) = others_invoices uid d"
proof (cases "find_one (\<lambda>i. inv_id i = iid \<and> user_id i = uid) (invoices d)")
  case None
  then show ?thesis by (simp add: pay_invoice_def)
next
  case (Some y)
  have "user_id (y\<lparr>status := PAID\<rparr>) = uid"
    using Some by (auto simp: find_one_def find_Some_iff)
  note update_one_others_invoices [OF Some assms, of "\<lambda>i. i\<lparr>status := PAID\<rparr>", OF this]
  then show ?thesis
    by (simp add: pay_invoice_def Some Let_def others_invoices_def)
qed

lemma own_view_simps:
  "servers (own_view uid d) = filter (\<lambda>s. srv_user_id s = uid) (servers d)"
  "invoices (own_view uid d) = filter (\<lambda>i. user_id i = uid) (invoices d)"
  "usage_samples (own_view uid d) = usage_samples d"
  by (simp_all add: own_view_def)

lemma bill_server_own_view: "bill_server st (own_view uid d) = bill_server st d"
  by (intro ext) (simp add: bill_server_def samples_in_period_def own_view_simps)

lemma get_server_usage_own_view:
  "get_server_usage so ev uid sid from_opt to_opt interval (own_view uid d)
     = get_server_usage so ev uid sid from_opt to_opt interval d"
  unfolding get_server_usage_def own_view_simps find_one_filter by (rule refl)

lemma response_own_view:
  "fst (handle_request dm st so ev uid rq d) = fst (handle_request dm st so ev uid rq (own_view uid d))"
proof (cases rq)
  case (CreateServer sc)
  then show ?thesis
    by (simp add: respond_def create_server_def Let_def split: sum.splits)
next
  case ListServers
  then show ?thesis by (simp add: list_servers_def own_view_simps)
next
  case (GetServer sid)
  then show ?thesis by (simp add: respond_def get_server_def own_view_simps find_one_filter)
next
  case (StartServer sid)
  then show ?thesis
    by (simp add: respond_def start_server_def own_view_simps find_one_filter split: option.splits)
next
  case (StopServer sid)
  then show ?thesis
    by (simp add: respond_def stop_server_def own_view_simps find_one_filter split: option.splits)
next
  case (UpdateServer sid u)
  then show ?thesis
    by (simp add: respond_def update_server_def own_view_simps find_one_filter Let_def split: option.splits)
next
  case (DeleteServer sid)
  then show ?thesis
    by (simp add: respond_def delete_server_def own_view_simps find_one_filter Let_def split: option.splits)
next
  case (GetServerUsage sid from_opt to_opt interval)
  then show ?thesis
    by (simp add: respond_def get_server_usage_own_view)
next
  case (GenerateInvoice req)
  then show ?thesis
    by (simp add: respond_def generate_invoice_def find_one_filter' bill_server_own_view
        own_view_simps Let_def split: option.splits)
next
  case ListInvoices
  then show ?thesis by (simp add: list_invoices_def own_view_simps)
next
  case (GetInvoice iid)
  then show ?thesis by (simp add: respond_def get_invoice_def own_view_simps find_one_filter)
next
  case (PayInvoice iid m)
  then show ?thesis
    by (simp add: respond_def pay_invoice_def own_view_simps find_one_filter Let_def split: option.splits)
qed

lemma others_unchanged:
  assumes "distinct (map srv_id (servers d))" and "distinct (map inv_id (invoices d))"
  shows "others_servers uid (snd (handle_request dm st so ev uid rq d)) = others_servers uid d
    \<and> others_invoices uid (snd (handle_request dm st so ev uid rq d)) = others_invoices uid d"
proof (cases rq)
  case (CreateServer sc)
  then show ?thesis using create_server_others [of uid dm ev sc d]
    by (simp add: respond_def others_invoices_def)
next
  case (StartServer sid)
  then show ?thesis using start_server_others [OF assms(1), of uid dm ev sid]
    by (simp add: respond_def others_invoices_def)
next
  case (StopServer sid)
  then show ?thesis using stop_server_others [OF assms(1), of uid dm ev sid]
    by (simp add: respond_def others_invoices_def)
next
  case (UpdateServer sid u)
  then show ?thesis using update_server_others [OF assms(1), of uid dm ev sid u]
    by (simp add: respond_def others_invoices_def)
next
  case (DeleteServer sid)
  then show ?thesis using delete_server_others [of uid dm sid d]
    by (simp add: respond_def others_invoices_def)
next
  case (GenerateInvoice req)
  then show ?thesis using generate_invoice_others [of st ev uid req d]
    by (simp add: respond_def others_servers_def)
next
  case (PayInvoice iid m)
  then show ?thesis using pay_invoice_others [OF assms(2), of ev uid iid m]
    by (simp add: respond_def others_servers_def)
qed (simp_all add: respond_def)

text \<open>
  C9 as stated fails: the writes of \<open>pay_invoice\<close> and \<open>start_server\<close> select the record by id
  alone. In a store where \<open>bob\<close>'s invoice and server carry the ids \<open>i1\<close> and \<open>s1\<close> of \<open>alice\<close>'s
  and come first, \<open>alice\<close> paying \<open>i1\<close> marks \<open>bob\<close>'s invoice Paid, and \<open>alice\<close> starting \<open>s1\<close>
  marks \<open>bob\<close>'s server Running.
\<close>

theorem unscoped_write_counterexample:
  "invoices (snd (pay_invoice example_env ''alice'' ''i1'' CREDIT_CARD shared_id_db))
     = [bob_invoice\<lparr>status := PAID\<rparr>, draft_invoice]
   \<and> user_id bob_invoice = ''bob'' \<and> status bob_invoice = DRAFT
   \<and> servers (snd (start_server real_manager example_env ''alice'' ''s1'' shared_id_db))
     = [bob_server\<lparr>srv_status := RUNNING, updated_at := 7200000000\<rparr>, alice_server]
   \<and> srv_user_id bob_server = ''bob'' \<and> srv_status bob_server = STOPPED"
proof -
  have s: "start_container real_manager cid" for cid
    by (simp add: start_container_def real_manager_simps example_client_def running_container_def)
  show ?thesis
    by (simp add: pay_invoice_def start_server_def shared_id_db_def find_one_def bob_invoice_def
        draft_invoice_def bob_server_def alice_server_def example_server_def truthy_def s
        example_env_def Let_def)
qed

text \<open>
  C9, amended: every read of a Server or Invoice is scoped by the caller's user id, so the
  response of every operation is the one it gives on the caller's own servers and invoices
  alone; the writes select by id after an ownership-scoped read of that id, so, ids being
  unique in each collection, every operation leaves the servers and invoices of all other
  users as they were.
\<close>

theorem caller_scoped_operations:
  assumes "distinct (map srv_id (servers d))" and "distinct (map inv_id (invoices d))"
  shows "others_servers uid (snd (handle_request dm st so ev uid rq d)) = others_servers uid d
    \<and> others_invoices uid (snd (handle_request dm st so ev uid rq d)) = others_invoices uid d
    \<and> fst (handle_request dm st so ev uid rq d)
        = fst (handle_request dm st so ev uid rq (own_view uid d))"
  using others_unchanged [OF assms] response_own_view by blast

theorem caller_scoped_operations_witness:
  "distinct (map srv_id (servers two_user_db)) \<and> distinct (map inv_id (invoices two_user_db))
   \<and> others_invoices ''alice''
        (snd (handle_request real_manager default_settings (\<lambda>t. t) example_env ''alice''
               (PayInvoice ''i1'' CREDIT_CARD) two_user_db))
      = [bob_invoice\<lparr>inv_id := ''i2''\<rparr>]
   \<and> others_servers ''alice''
        (snd (handle_request real_manager default_settings (\<lambda>t. t) example_env ''alice''
               (PayInvoice ''i1'' CREDIT_CARD) two_user_db))
      = [bob_server\<lparr>srv_id := ''s2''\<rparr>]"
proof -
  have d1: "distinct (map srv_id (servers two_user_db))"
    by (simp add: two_user_db_def bob_server_def alice_server_def example_server_def)
  have d2: "distinct (map inv_id (invoices two_user_db))"
    by (simp add: two_user_db_def bob_invoice_def draft_invoice_def)
  have o1: "others_invoices ''alice'' two_user_db = [bob_invoice\<lparr>inv_id := ''i2''\<rparr>]"
    by (simp add: others_invoices_def two_user_db_def bob_invoice_def draft_invoice_def)
  have o2: "others_servers ''alice'' two_user_db = [bob_server\<lparr>srv_id := ''s2''\<rparr>]"
    by (simp add: others_servers_def two_user_db_def bob_server_def alice_server_def
        example_server_def)
  from caller_scoped_operations [OF d1 d2, of "''alice''" real_manager default_settings "\<lambda>t. t"
      example_env "PayInvoice ''i1'' CREDIT_CARD"] d1 d2 o1 o2
  show ?thesis by simp
qed

end
